theory Spec2Isabelle
  imports Main "HOL-Library.AList"
begin

section \<open>Python values, exceptions and log records\<close>

text \<open>
  The scheduler lives in \<^verbatim>\<open>src/app/scheduler/__init__.py\<close>, the billing actions built
  on it in \<^verbatim>\<open>src/app/common/billing_actions.py\<close>.

  Conventions of the embedding.
  \<^item> A \<^verbatim>\<open>datetime\<close> is an integer number of microseconds (the resolution of Python's
    \<^verbatim>\<open>datetime\<close>), a \<^verbatim>\<open>timedelta\<close> is an integer number of microseconds too.
  \<^item> A Python \<^verbatim>\<open>dict\<close> is an association list in insertion order; \<^verbatim>\<open>d[k] = v\<close> is
    \<^const>\<open>AList.update\<close>, \<^verbatim>\<open>del d[k]\<close> is \<^const>\<open>AList.delete\<close>, \<^verbatim>\<open>k in d\<close> and
    \<^verbatim>\<open>d[k]\<close> go through \<^const>\<open>map_of\<close>.
  \<^item> A coroutine that may raise is a function from the state to a pair of its outcome
    (\<open>Inl\<close> the exception, \<open>Inr\<close> the value returned) and the state it leaves.
  \<^item> The tables are read and written directly; connectivity failures, constraint
    violations and roll-backs of the database are outside the embedding. The functions of
    the scheduler and of the billing module that touch the database open a session
    themselves (\<^verbatim>\<open>async with db.DatabaseApi().session(...)\<close>), so their queries always find
    one. \<^verbatim>\<open>ActionHandle.get_action\<close> opens none: there the context variable
    \<^verbatim>\<open>_cur_session\<close> of \<^verbatim>\<open>src/app/db/interface.py\<close> is part of the model.
\<close>

text \<open>
  The values that a keyword payload holds: what JSON can store in the column \<^verbatim>\<open>args\<close>.
\<close>

datatype pyval =
    PyNone
  | PyBool bool
  | PyInt int
  | PyStr string
  | PyList "pyval list"
  | PyDict "(string \<times> pyval) list"

type_synonym kwargs = "(string \<times> pyval) list"
type_synonym datetime = int
type_synonym timedelta = int

datatype exn =
    ValueError
  | AssertionError
  | TypeError
  | AttributeError
  | LookupError
  | CpPaymentError
  | BadRequest
  | CancelledError
  | OtherException string

datatype log_level = DEBUG | INFO | WARNING | ERROR

datatype log_msg =
    CancelMissing int
  | CancelAlreadyDone int
  | NotPlanned int
  | HandlerNotSet string
  | TaskException exn
  | SchedulerInitialized
  | UserNotFound pyval
  | NoPlanForUser pyval
  | ExtraPlanExpired pyval
  | PaymentStatusNotSent
  | DeprecatedActionUsed string

section \<open>The persisted rows and the runtime state\<close>

text \<open>
  \<^verbatim>\<open>db.ScheduledAction\<close> (\<^verbatim>\<open>src/app/db/model.py\<close>): the primary key \<^verbatim>\<open>id\<close> is the key of
  the table, the other columns are the fields of the row.
\<close>

record ScheduledAction =
  sa_user_id :: pyval
  sa_time :: datetime
  sa_done :: bool
  sa_type :: string
  sa_args :: kwargs

record Plan =
  plan_id :: int
  plan_price :: "int option"

record User =
  telegram_id :: "string option"
  subscription :: "Plan option"
  payment_token :: "string option"
  extra_data :: kwargs

text \<open>
  An \<^verbatim>\<open>asyncio.Task\<close> running \<^verbatim>\<open>_scheduled_action_task(action_id, action_type, dt, **kwargs)\<close>.
  It is \<open>Waiting\<close> while it sleeps in \<^verbatim>\<open>wait_until\<close>, \<open>Cancelled\<close> once \<^verbatim>\<open>Task.cancel()\<close>
  reached it there, \<open>Finished\<close> once its coroutine has returned.
\<close>

datatype task_status = Waiting | Cancelled | Finished

record Task =
  task_action_id :: int
  task_action_type :: string
  task_dt :: datetime
  task_kwargs :: kwargs
  task_status :: task_status

text \<open>
  The module-level dictionaries \<^verbatim>\<open>handlers\<close> and \<^verbatim>\<open>scheduled_tasks\<close>, the tasks of the event
  loop (a task handle is its position in \<open>loop_tasks\<close>), the tables \<^verbatim>\<open>scheduled_actions\<close> and
  \<^verbatim>\<open>users\<close>, the auto-increment counter of the primary key, and what was logged.
  The type \<open>'h\<close> is the type of the callables stored in \<^verbatim>\<open>handlers\<close>.
\<close>

record 'h runtime =
  handlers :: "(string \<times> 'h) list"
  scheduled_tasks :: "(int \<times> nat) list"
  loop_tasks :: "Task list"
  scheduled_actions :: "(int \<times> ScheduledAction) list"
  next_action_id :: int
  users :: "(int \<times> User) list"
  log_records :: "(log_level \<times> log_msg) list"

type_synonym ('h, 'a) coroutine = "'h runtime \<Rightarrow> (exn + 'a) \<times> 'h runtime"

definition logging :: "log_level \<Rightarrow> log_msg \<Rightarrow> 'h runtime \<Rightarrow> 'h runtime" where
  "logging lvl msg s = s\<lparr>log_records := log_records s @ [(lvl, msg)]\<rparr>"

subsection \<open>Database access\<close>

text \<open>\<^verbatim>\<open>DatabaseApi.get_scheduled_action\<close>: the row with this primary key, or \<^verbatim>\<open>None\<close>.\<close>

definition get_scheduled_action :: "int \<Rightarrow> 'h runtime \<Rightarrow> ScheduledAction option" where
  "get_scheduled_action action_id s = map_of (scheduled_actions s) action_id"

text \<open>The assignment \<^verbatim>\<open>action.done = True\<close> on the row fetched by its primary key.\<close>

definition set_done :: "int \<Rightarrow> 'h runtime \<Rightarrow> 'h runtime" where
  "set_done action_id s =
     s\<lparr>scheduled_actions :=
         AList.map_entry action_id (\<lambda>a. a\<lparr>sa_done := True\<rparr>) (scheduled_actions s)\<rparr>"

text \<open>
  \<^verbatim>\<open>DatabaseApi.find_scheduled_actions(user_id=..., done=..., action_types=...)\<close>: each
  filter applies only when its argument is not \<^verbatim>\<open>None\<close>.
\<close>

definition find_scheduled_actions ::
  "int option \<Rightarrow> bool option \<Rightarrow> string list option \<Rightarrow> 'h runtime \<Rightarrow> (int \<times> ScheduledAction) list"
where
  "find_scheduled_actions user_id done_flag action_types s =
     filter (\<lambda>(i, a).
        (case user_id of None \<Rightarrow> True | Some u \<Rightarrow> sa_user_id a = PyInt u) \<and>
        (case action_types of None \<Rightarrow> True | Some ts \<Rightarrow> sa_type a \<in> set ts) \<and>
        (case done_flag of None \<Rightarrow> True | Some d \<Rightarrow> sa_done a = d))
       (scheduled_actions s)"

text \<open>\<^verbatim>\<open>_get_scheduled_actions\<close>: every row that is not done.\<close>

definition get_scheduled_actions :: "'h runtime \<Rightarrow> (int \<times> ScheduledAction) list" where
  "get_scheduled_actions s = filter (\<lambda>(i, a). \<not> sa_done a) (scheduled_actions s)"

section \<open>The registry\<close>

text \<open>
  \<^verbatim>\<open>raw_action_handler(action_type)(func)\<close>: the decorator stores \<^verbatim>\<open>func\<close> under
  \<^verbatim>\<open>action_type\<close> and returns it; it has no other statement.
\<close>

definition raw_action_handler :: "string \<Rightarrow> 'h \<Rightarrow> ('h, 'h) coroutine" where
  "raw_action_handler action_type func s =
     (Inr func, s\<lparr>handlers := AList.update action_type func (handlers s)\<rparr>)"

text \<open>
  \<^verbatim>\<open>Action.__init_subclass__(cls, action_name=...)\<close>: raises \<^verbatim>\<open>ValueError\<close> when the name is
  taken, else stores the closure \<^verbatim>\<open>do_handle\<close> of the class under the name.
\<close>

definition init_subclass :: "string \<Rightarrow> 'h \<Rightarrow> ('h, unit) coroutine" where
  "init_subclass action_name do_handle s =
     (if map_of (handlers s) action_name \<noteq> None then (Inl ValueError, s)
      else (Inr (), s\<lparr>handlers := AList.update action_name do_handle (handlers s)\<rparr>))"

section \<open>Scheduling, cancelling and running\<close>

text \<open>\<^verbatim>\<open>asyncio.create_task\<close>: the new task joins the loop; its handle is returned.\<close>

definition new_task :: "int \<Rightarrow> string \<Rightarrow> datetime \<Rightarrow> kwargs \<Rightarrow> Task" where
  "new_task action_id action_type dt kw =
     \<lparr>task_action_id = action_id, task_action_type = action_type, task_dt = dt,
      task_kwargs = kw, task_status = Waiting\<rparr>"

definition create_task ::
  "int \<Rightarrow> string \<Rightarrow> datetime \<Rightarrow> kwargs \<Rightarrow> 'h runtime \<Rightarrow> nat \<times> 'h runtime"
where
  "create_task action_id action_type dt kw s =
     (length (loop_tasks s),
      s\<lparr>loop_tasks := loop_tasks s @ [new_task action_id action_type dt kw]\<rparr>)"

text \<open>\<^verbatim>\<open>Task.cancel()\<close>: no effect on a task that is over.\<close>

definition task_cancel :: "nat \<Rightarrow> 'h runtime \<Rightarrow> 'h runtime" where
  "task_cancel t s =
     (if t < length (loop_tasks s) \<and> task_status (loop_tasks s ! t) = Waiting
      then s\<lparr>loop_tasks := (loop_tasks s)[t := (loop_tasks s ! t)\<lparr>task_status := Cancelled\<rparr>]\<rparr>
      else s)"

text \<open>
  \<^verbatim>\<open>raw_schedule_action(action_type, time, **kwargs)\<close>: adds the row, takes its id from the
  flush, creates the task and stores it in \<^verbatim>\<open>scheduled_tasks\<close>.
\<close>

definition raw_schedule_action :: "string \<Rightarrow> datetime \<Rightarrow> kwargs \<Rightarrow> ('h, int) coroutine" where
  "raw_schedule_action action_type time kw s =
     (let action = \<lparr>sa_user_id = (case map_of kw ''user_id'' of Some u \<Rightarrow> u | None \<Rightarrow> PyNone),
                    sa_time = time, sa_done = False, sa_type = action_type, sa_args = kw\<rparr>;
          action_id = next_action_id s;
          s1 = s\<lparr>scheduled_actions := scheduled_actions s @ [(action_id, action)],
                 next_action_id := action_id + 1\<rparr>;
          (task, s2) = create_task action_id action_type time kw s1
      in (Inr action_id, s2\<lparr>scheduled_tasks := AList.update action_id task (scheduled_tasks s2)\<rparr>))"

text \<open>\<^verbatim>\<open>raw_cancel_action(action_id)\<close>, branch by branch.\<close>

definition raw_cancel_action :: "int \<Rightarrow> ('h, unit) coroutine" where
  "raw_cancel_action action_id s =
     (case get_scheduled_action action_id s of
        None \<Rightarrow> (Inr (), logging WARNING (CancelMissing action_id) s)
      | Some action \<Rightarrow>
          if sa_done action then (Inr (), logging WARNING (CancelAlreadyDone action_id) s)
          else
            let s1 = set_done action_id s in
            (case map_of (scheduled_tasks s1) action_id of
               None \<Rightarrow> (Inr (), logging ERROR (NotPlanned action_id) s1)
             | Some task \<Rightarrow>
                 let s2 = task_cancel task s1 in
                 (Inr (), s2\<lparr>scheduled_tasks := AList.delete action_id (scheduled_tasks s2)\<rparr>)))"

text \<open>
  \<^verbatim>\<open>wait_until(dt)\<close> sleeps \<^verbatim>\<open>(dt - now).total_seconds()\<close>; \<^verbatim>\<open>asyncio.sleep\<close> returns at
  once when its delay is zero or negative. The value is the time slept.
\<close>

definition asyncio_sleep :: "timedelta \<Rightarrow> timedelta" where
  "asyncio_sleep delay = (if delay \<le> 0 then 0 else delay)"

definition wait_until :: "datetime \<Rightarrow> datetime \<Rightarrow> timedelta" where
  "wait_until dt now = asyncio_sleep (dt - now)"

text \<open>
  \<^verbatim>\<open>_perform_action\<close>. The parameter \<open>call\<close> is the application of a stored callable:
  \<open>call h dt kw\<close> is \<^verbatim>\<open>await handler(dt, **kwargs)\<close>, with its exception or clean return
  and the state the handler leaves.
\<close>

definition perform_action ::
  "('h \<Rightarrow> datetime \<Rightarrow> kwargs \<Rightarrow> ('h, unit) coroutine) \<Rightarrow>
   int \<Rightarrow> string \<Rightarrow> datetime \<Rightarrow> kwargs \<Rightarrow> ('h, unit) coroutine"
where
  "perform_action call action_id action_type dt kw s =
     (case map_of (handlers s) action_type of
        None \<Rightarrow> (Inr (), logging ERROR (HandlerNotSet action_type) s)
      | Some handler \<Rightarrow>
          (case call handler dt kw s of
             (Inl e, s1) \<Rightarrow> (Inl e, s1)
           | (Inr _, s1) \<Rightarrow>
               (case get_scheduled_action action_id s1 of
                  None \<Rightarrow> (Inr (), s1)
                | Some action \<Rightarrow> (Inr (), set_done action_id s1))))"

text \<open>
  \<^verbatim>\<open>_scheduled_action_task\<close> after its wait: \<^verbatim>\<open>asyncio.CancelledError\<close> is passed over in
  silence, every other exception is logged; the coroutine itself returns \<^verbatim>\<open>None\<close>.
\<close>

definition scheduled_action_task ::
  "('h \<Rightarrow> datetime \<Rightarrow> kwargs \<Rightarrow> ('h, unit) coroutine) \<Rightarrow>
   int \<Rightarrow> string \<Rightarrow> datetime \<Rightarrow> kwargs \<Rightarrow> ('h, unit) coroutine"
where
  "scheduled_action_task call action_id action_type dt kw s =
     (case perform_action call action_id action_type dt kw s of
        (Inl CancelledError, s1) \<Rightarrow> (Inr (), s1)
      | (Inl e, s1) \<Rightarrow> (Inr (), logging ERROR (TaskException e) s1)
      | (Inr _, s1) \<Rightarrow> (Inr (), s1))"

text \<open>
  One step of the event loop on task \<open>t\<close>: a task still waiting wakes up, runs
  \<^verbatim>\<open>_scheduled_action_task\<close> to its end and is finished; a task cancelled or finished does
  nothing more.
\<close>

definition fire ::
  "('h \<Rightarrow> datetime \<Rightarrow> kwargs \<Rightarrow> ('h, unit) coroutine) \<Rightarrow> nat \<Rightarrow> 'h runtime \<Rightarrow> 'h runtime"
where
  "fire call t s =
     (if t < length (loop_tasks s) \<and> task_status (loop_tasks s ! t) = Waiting then
        let task = loop_tasks s ! t;
            s1 = snd (scheduled_action_task call (task_action_id task) (task_action_type task)
                        (task_dt task) (task_kwargs task) s)
        in s1\<lparr>loop_tasks := (loop_tasks s1)[t := (loop_tasks s1 ! t)\<lparr>task_status := Finished\<rparr>]\<rparr>
      else s)"

text \<open>
  \<^verbatim>\<open>run()\<close> up to its idle loop: one task per row that is not done, stored under the id of
  the row. The idle loop \<^verbatim>\<open>while True: await asyncio.sleep(60)\<close> ends only by an exception;
  \<open>run_finally\<close> is the clean-up that follows it.
\<close>

fun arm_all :: "(int \<times> ScheduledAction) list \<Rightarrow> 'h runtime \<Rightarrow> 'h runtime" where
  "arm_all [] s = s"
| "arm_all ((action_id, action) # actions) s =
     (let (task, s1) = create_task action_id (sa_type action) (sa_time action) (sa_args action) s
      in arm_all actions (s1\<lparr>scheduled_tasks := AList.update action_id task (scheduled_tasks s1)\<rparr>))"

definition run :: "'h runtime \<Rightarrow> 'h runtime" where
  "run s = logging INFO SchedulerInitialized (arm_all (get_scheduled_actions s) s)"

definition run_finally :: "'h runtime \<Rightarrow> 'h runtime" where
  "run_finally s = fold task_cancel (map snd (scheduled_tasks s)) s"

text \<open>Cancelling a list of ids, one call of \<^verbatim>\<open>raw_cancel_action\<close> after the other.\<close>

definition cancel_each :: "int list \<Rightarrow> 'h runtime \<Rightarrow> 'h runtime" where
  "cancel_each ids s = fold (\<lambda>i s. snd (raw_cancel_action i s)) ids s"


section \<open>Handles\<close>

text \<open>\<^verbatim>\<open>ActionHandle\<close>: a dataclass with the single field \<^verbatim>\<open>action_id\<close>.\<close>

datatype ActionHandle = ActionHandle (action_id: int)

definition ActionHandle_cancel :: "ActionHandle \<Rightarrow> ('h, unit) coroutine" where
  "ActionHandle_cancel self s = raw_cancel_action (action_id self) s"






section \<open>Typed actions\<close>

text \<open>
  A concrete subclass of \<^verbatim>\<open>Action\<close>: its \<^verbatim>\<open>__qualname__\<close>, the \<^verbatim>\<open>_action_name_\<close> set by
  \<^verbatim>\<open>__init_subclass__\<close>, and its dataclass fields in declaration order, each with its
  default value if it has one. An instance carries its class and its attributes.
\<close>

record ActionClass =
  cls_qualname :: string
  cls_action_name :: string
  cls_fields :: "(string \<times> pyval option) list"

record Action =
  cls :: ActionClass
  attrs :: kwargs

definition field_names :: "ActionClass \<Rightarrow> string list" where
  "field_names c = map fst (cls_fields c)"

text \<open>
  The \<^verbatim>\<open>__init__\<close> that \<^verbatim>\<open>dataclasses.dataclass\<close> generates, called with keywords only:
  an unexpected keyword or a missing field without default is a \<^verbatim>\<open>TypeError\<close>.
\<close>

definition dataclass_init :: "ActionClass \<Rightarrow> kwargs \<Rightarrow> exn + Action" where
  "dataclass_init c data =
     (if \<not> list_all (\<lambda>k. k \<in> set (field_names c)) (map fst data) then Inl TypeError
      else
        (case those (map (\<lambda>(f, d).
                (case map_of data f of
                   Some v \<Rightarrow> Some (f, v)
                 | None \<Rightarrow> map_option (Pair f) d)) (cls_fields c)) of
           None \<Rightarrow> Inl TypeError
         | Some kvs \<Rightarrow> Inr \<lparr>cls = c, attrs = kvs\<rparr>))"

text \<open>
  \<^verbatim>\<open>Action.serialize\<close> is \<^verbatim>\<open>dataclasses.asdict(self)\<close>: one entry per declared field, in
  declaration order, with a copy of the attribute (a value of \<^typ>\<open>pyval\<close> holds no
  dataclass instance, so the copy that \<^verbatim>\<open>asdict\<close> builds is an equal value).
\<close>

definition serialize :: "Action \<Rightarrow> exn + kwargs" where
  "serialize self =
     (case those (map (\<lambda>f. map_option (Pair f) (map_of (attrs self) f))
                    (field_names (cls self))) of
        None \<Rightarrow> Inl AttributeError
      | Some kvs \<Rightarrow> Inr kvs)"

text \<open>\<^verbatim>\<open>Action.deserialize(cls, data)\<close>: the assertion on every key, then \<^verbatim>\<open>cls(**data)\<close>.\<close>

definition deserialize :: "ActionClass \<Rightarrow> kwargs \<Rightarrow> exn + Action" where
  "deserialize c data =
     (if \<not> list_all (\<lambda>field_name. field_name \<in> set (field_names c)) (map fst data)
      then Inl AssertionError
      else dataclass_init c data)"

definition get_name :: "ActionClass \<Rightarrow> string" where
  "get_name c = cls_action_name c"

text \<open>\<^verbatim>\<open>Action.schedule(self, time)\<close>.\<close>

definition schedule :: "Action \<Rightarrow> datetime \<Rightarrow> ('h, ActionHandle) coroutine" where
  "schedule self time s =
     (case serialize self of
        Inl e \<Rightarrow> (Inl e, s)
      | Inr kw \<Rightarrow>
          (case raw_schedule_action (get_name (cls self)) time kw s of
             (Inl e, s1) \<Rightarrow> (Inl e, s1)
           | (Inr new_id, s1) \<Rightarrow> (Inr (ActionHandle new_id), s1)))"

text \<open>
  An instance as \<^verbatim>\<open>__init__\<close> leaves it and as attribute assignments keep it: exactly the
  declared fields are set, and the field names of the class are distinct.
\<close>

definition wf_action :: "Action \<Rightarrow> bool" where
  "wf_action self \<longleftrightarrow>
     map fst (attrs self) = field_names (cls self) \<and> distinct (field_names (cls self))"

subsection \<open>The billing action classes\<close>

definition RecurrentPaymentAction :: ActionClass where
  "RecurrentPaymentAction =
     \<lparr>cls_qualname = ''RecurrentPaymentAction'', cls_action_name = ''recurrent_payment'',
      cls_fields = [(''user_id'', None), (''retries_left'', None)]\<rparr>"

definition ExtraPlanPaymentRetryAction :: ActionClass where
  "ExtraPlanPaymentRetryAction =
     \<lparr>cls_qualname = ''ExtraPlanPaymentRetryAction'', cls_action_name = ''extra_plan_payment_retry'',
      cls_fields = [(''user_id'', None), (''retries_left'', None), (''deadline'', None)]\<rparr>"

definition ExtraPlanResetAction :: ActionClass where
  "ExtraPlanResetAction =
     \<lparr>cls_qualname = ''ExtraPlanResetAction'', cls_action_name = ''extra_plan_reset'',
      cls_fields = [(''user_id'', None)]\<rparr>"

definition KickInactiveAction :: ActionClass where
  "KickInactiveAction =
     \<lparr>cls_qualname = ''KickInactiveAction'', cls_action_name = ''pishov_nahui'',
      cls_fields = [(''user_id'', None)]\<rparr>"

section \<open>Billing actions\<close>

text \<open>
  Constants of \<^verbatim>\<open>src/app/common/__init__.py\<close>: \<^verbatim>\<open>timedelta(days=1)\<close>, \<^verbatim>\<open>timedelta(days=30)\<close>,
  the retry budget, the keys of \<^verbatim>\<open>ExtraData\<close> and the members of the integer enumeration
  \<^verbatim>\<open>AdvanceServiceState\<close>.
\<close>

definition CHARGE_RETRY_PERIOD :: timedelta where
  "CHARGE_RETRY_PERIOD = 86400000000"

definition AUTO_KICK_PERIOD :: timedelta where
  "AUTO_KICK_PERIOD = 30 * 86400000000"

definition CHARGE_RETRIES_COUNT :: int where
  "CHARGE_RETRIES_COUNT = 2"

definition FAILED_RECURRENT_RECOVERED :: string where
  "FAILED_RECURRENT_RECOVERED = ''failed_recurrent_recovered''"

definition ADVANCED_SERVICE_STATE :: string where
  "ADVANCED_SERVICE_STATE = ''advance_service_state''"

definition UNUSED :: pyval where
  "UNUSED = PyInt 1"

definition IN_PROGRESS :: pyval where
  "IN_PROGRESS = PyInt 2"

definition NOTIFIED :: pyval where
  "NOTIFIED = PyInt 3"

text \<open>
  What \<^verbatim>\<open>handlers\<close> holds in the billing module: the closure \<^verbatim>\<open>do_handle\<close> of a typed
  action class, or the function \<^verbatim>\<open>_deprecated_retry_rec_payment_handler\<close>.
\<close>

datatype billing_handler = DoHandle ActionClass | DeprecatedRetryRecPaymentHandler

text \<open>
  What lies outside the embedding and is taken as given for one run of a handler: the
  answer of the payment gateway to \<^verbatim>\<open>cp.request\<close> (a transaction id or an exception), the
  date that \<^verbatim>\<open>common.activate_plan\<close> returns, the outcome of the Telegram notification
  (\<open>None\<close> when it is sent), and the \<^verbatim>\<open>run\<close> methods of the action classes that are not
  embedded (\<^verbatim>\<open>ExtraPlanPaymentRetryAction\<close>, \<^verbatim>\<open>KickInactiveAction\<close>).
\<close>

record external =
  cp_request :: "exn + int"
  activate_plan_end :: datetime
  tg_send :: "exn option"
  other_run :: "Action \<Rightarrow> datetime \<Rightarrow> (billing_handler, unit) coroutine"

text \<open>Python's \<^verbatim>\<open>bool(v)\<close>, and the integer a value stands for (\<^verbatim>\<open>bool\<close> is an \<^verbatim>\<open>int\<close>).\<close>

fun truthy :: "pyval \<Rightarrow> bool" where
  "truthy PyNone = False"
| "truthy (PyBool b) = b"
| "truthy (PyInt i) = (i \<noteq> 0)"
| "truthy (PyStr x) = (x \<noteq> [])"
| "truthy (PyList xs) = (xs \<noteq> [])"
| "truthy (PyDict kvs) = (kvs \<noteq> [])"

fun py_int :: "pyval \<Rightarrow> int option" where
  "py_int (PyInt i) = Some i"
| "py_int (PyBool b) = Some (if b then 1 else 0)"
| "py_int v = None"

text \<open>
  \<^verbatim>\<open>DatabaseApi.find_user(user_id=...)\<close>: \<^verbatim>\<open>enforce_single_key\<close> asserts that the one key
  given is truthy; the query compares the integer primary key with the value (a value
  that is no integer is rejected by the database driver). The result carries the primary
  key of the user found.
\<close>

definition find_user :: "pyval \<Rightarrow> 'h runtime \<Rightarrow> exn + (int \<times> User) option" where
  "find_user user_id s =
     (if \<not> truthy user_id then Inl AssertionError
      else
        (case py_int user_id of
           None \<Rightarrow> Inl (OtherException ''DataError'')
         | Some u \<Rightarrow> Inr (map_option (Pair u) (map_of (users s) u))))"

text \<open>\<^verbatim>\<open>user.extra_data = user.extra_data | {key: value}\<close> on the user with primary key \<open>k\<close>.\<close>

definition set_extra_data :: "int \<Rightarrow> User \<Rightarrow> string \<Rightarrow> pyval \<Rightarrow> 'h runtime \<Rightarrow> 'h runtime" where
  "set_extra_data k user key v s =
     s\<lparr>users := AList.update k (user\<lparr>extra_data := AList.update key v (extra_data user)\<rparr>)
                  (users s)\<rparr>"

text \<open>
  \<^verbatim>\<open>cp_methods.charge(user, plan, reason)\<close>: the assertion on the payment token, then the
  request to the gateway.
\<close>

definition charge :: "external \<Rightarrow> User \<Rightarrow> Plan \<Rightarrow> exn + int" where
  "charge ext user plan =
     (if payment_token user = None then Inl AssertionError else cp_request ext)"

text \<open>
  The end of \<^verbatim>\<open>RecurrentPaymentAction.run\<close> and \<^verbatim>\<open>ExtraPlanPaymentRetryAction.run\<close>: the
  user is told the result when a Telegram id is known; \<^verbatim>\<open>BadRequest\<close> is logged, any other
  exception leaves \<^verbatim>\<open>run\<close>.
\<close>

definition notify_payment :: "external \<Rightarrow> string option \<Rightarrow> ('h, unit) coroutine" where
  "notify_payment ext tg s =
     (case tg of
        None \<Rightarrow> (Inr (), s)
      | Some chat \<Rightarrow>
          (case tg_send ext of
             None \<Rightarrow> (Inr (), s)
           | Some e \<Rightarrow>
               if e = BadRequest then (Inr (), logging ERROR PaymentStatusNotSent s)
               else (Inl e, s)))"

text \<open>\<^verbatim>\<open>KickInactiveAction(user_id)\<close> and the assignment \<^verbatim>\<open>self.retries_left = v\<close>.\<close>

definition new_KickInactiveAction :: "pyval \<Rightarrow> Action" where
  "new_KickInactiveAction user_id = \<lparr>cls = KickInactiveAction, attrs = [(''user_id'', user_id)]\<rparr>"

definition set_retries_left :: "pyval \<Rightarrow> Action \<Rightarrow> Action" where
  "set_retries_left v self = self\<lparr>attrs := AList.update ''retries_left'' v (attrs self)\<rparr>"

text \<open>
  \<^verbatim>\<open>RecurrentPaymentAction.run(self, dt)\<close>. An exception raised inside the session block
  rolls the session back: the state is the one before the call.
\<close>

definition RecurrentPaymentAction_run ::
  "external \<Rightarrow> Action \<Rightarrow> datetime \<Rightarrow> (billing_handler, unit) coroutine"
where
  "RecurrentPaymentAction_run ext self dt s =
     (case map_of (attrs self) ''user_id'' of
        None \<Rightarrow> (Inl AttributeError, s)
      | Some user_id \<Rightarrow>
     (case find_user user_id s of
        Inl e \<Rightarrow> (Inl e, s)
      | Inr None \<Rightarrow> (Inr (), logging WARNING (UserNotFound user_id) s)
      | Inr (Some (k, user)) \<Rightarrow>
     (case subscription user of
        None \<Rightarrow> (Inr (), logging WARNING (NoPlanForUser user_id) s)
      | Some plan \<Rightarrow>
          if plan_price plan = None \<or> plan_price plan = Some 0 then (Inl AssertionError, s)
          else
     (case charge ext user plan of
        Inr tx \<Rightarrow>
          (case schedule (set_retries_left (PyInt CHARGE_RETRIES_COUNT) self)
                  (activate_plan_end ext) s of
             (Inl e, s1) \<Rightarrow> (Inl e, s)
           | (Inr h, s1) \<Rightarrow>
               notify_payment ext (telegram_id user)
                 (set_extra_data k user FAILED_RECURRENT_RECOVERED (PyBool True) s1))
      | Inl e \<Rightarrow>
          if e \<noteq> CpPaymentError then (Inl e, s)
          else
     (case map_of (attrs self) ''retries_left'' of
        None \<Rightarrow> (Inl AttributeError, s)
      | Some retries_left \<Rightarrow>
     (case py_int retries_left of
        None \<Rightarrow> (Inl TypeError, s)
      | Some n \<Rightarrow>
          (case (if n > 0
                 then schedule (set_retries_left (PyInt (n - 1)) self) (dt + CHARGE_RETRY_PERIOD) s
                 else schedule (new_KickInactiveAction user_id) (dt + AUTO_KICK_PERIOD) s) of
             (Inl e, s1) \<Rightarrow> (Inl e, s)
           | (Inr h, s1) \<Rightarrow>
               notify_payment ext (telegram_id user)
                 (set_extra_data k user FAILED_RECURRENT_RECOVERED (PyBool False) s1))))))))"

text \<open>\<^verbatim>\<open>ExtraPlanResetAction.run(self, dt)\<close>.\<close>

definition ExtraPlanResetAction_run :: "Action \<Rightarrow> datetime \<Rightarrow> ('h, unit) coroutine" where
  "ExtraPlanResetAction_run self dt s =
     (case map_of (attrs self) ''user_id'' of
        None \<Rightarrow> (Inl AttributeError, s)
      | Some user_id \<Rightarrow>
     (case find_user user_id s of
        Inl e \<Rightarrow> (Inl e, s)
      | Inr None \<Rightarrow> (Inr (), logging WARNING (UserNotFound user_id) s)
      | Inr (Some (k, user)) \<Rightarrow>
          (Inr (), set_extra_data k user ADVANCED_SERVICE_STATE UNUSED
                     (logging INFO (ExtraPlanExpired user_id) s))))"

text \<open>The method \<^verbatim>\<open>run\<close> of an instance, by its class.\<close>

definition Action_run ::
  "external \<Rightarrow> Action \<Rightarrow> datetime \<Rightarrow> (billing_handler, unit) coroutine"
where
  "Action_run ext self dt s =
     (if cls self = RecurrentPaymentAction then RecurrentPaymentAction_run ext self dt s
      else if cls self = ExtraPlanResetAction then ExtraPlanResetAction_run self dt s
      else other_run ext self dt s)"

text \<open>
  Calling what \<^verbatim>\<open>handlers\<close> holds. \<^verbatim>\<open>do_handle(dt, **kwargs)\<close> is
  \<^verbatim>\<open>cls.deserialize(kwargs).run(dt)\<close>. The deprecated handler takes exactly the keywords
  \<^verbatim>\<open>user_id\<close> and \<^verbatim>\<open>retries_left\<close>, logs a warning and runs a \<^verbatim>\<open>RecurrentPaymentAction\<close>.
\<close>

fun billing_call ::
  "external \<Rightarrow> billing_handler \<Rightarrow> datetime \<Rightarrow> kwargs \<Rightarrow> (billing_handler, unit) coroutine"
where
  "billing_call ext (DoHandle c) dt kw s =
     (case deserialize c kw of
        Inl e \<Rightarrow> (Inl e, s)
      | Inr self \<Rightarrow> Action_run ext self dt s)"
| "billing_call ext DeprecatedRetryRecPaymentHandler dt kw s =
     (case (map_of kw ''user_id'', map_of kw ''retries_left'') of
        (Some user_id, Some retries_left) \<Rightarrow>
          if \<not> list_all (\<lambda>k. k = ''user_id'' \<or> k = ''retries_left'') (map fst kw)
          then (Inl TypeError, s)
          else RecurrentPaymentAction_run ext
                 \<lparr>cls = RecurrentPaymentAction,
                  attrs = [(''user_id'', user_id), (''retries_left'', retries_left)]\<rparr> dt
                 (logging WARNING (DeprecatedActionUsed ''recurrent_payment_retry'') s)
      | _ \<Rightarrow> (Inl TypeError, s))"

text \<open>
  The three bulk cancellations: the pending rows of the user whose type is in the list are
  cancelled one after the other.
\<close>

definition cancel_billing_punishment :: "int \<Rightarrow> ('h, unit) coroutine" where
  "cancel_billing_punishment user_id s =
     (Inr (), cancel_each (map fst (find_scheduled_actions (Some user_id) (Some False)
        (Some [''pishov_nahui'', ''recurrent_payment_retry'', ''extra_plan_payment_retry'']) s)) s)"

definition cancel_extra_punishments :: "int \<Rightarrow> ('h, unit) coroutine" where
  "cancel_extra_punishments user_id s =
     (Inr (), cancel_each (map fst (find_scheduled_actions (Some user_id) (Some False)
        (Some [''extra_plan_payment_retry'']) s)) s)"

definition cancel_billing_actions :: "int \<Rightarrow> ('h, unit) coroutine" where
  "cancel_billing_actions user_id s =
     (Inr (), cancel_each (map fst (find_scheduled_actions (Some user_id) (Some False)
        (Some [''pishov_nahui'', ''recurrent_payment'', ''recurrent_payment_retry'',
               ''extra_plan_payment_retry'']) s)) s)"

text \<open>
  What the table says was scheduled: id, type, time and arguments of every row, in the
  order of insertion (the \<^verbatim>\<open>done\<close> flags left aside).
\<close>

definition rows_scheduled :: "'h runtime \<Rightarrow> (int \<times> string \<times> datetime \<times> kwargs) list" where
  "rows_scheduled s = map (\<lambda>(i, a). (i, sa_type a, sa_time a, sa_args a)) (scheduled_actions s)"

text \<open>
  A chain of runs: task \<open>t\<close> fires, then the task that this run created (the first handle
  that was free before it), and so on, \<open>k\<close> times, each under the same outcomes \<open>ext\<close>.
\<close>

fun consecutive_runs ::
  "external \<Rightarrow> nat \<Rightarrow> nat \<Rightarrow> billing_handler runtime \<Rightarrow> billing_handler runtime"
where
  "consecutive_runs ext 0 t s = s"
| "consecutive_runs ext (Suc k) t s =
     consecutive_runs ext k (length (loop_tasks s)) (fire (billing_call ext) t s)"

text \<open>
  Action \<open>i\<close> with row \<open>a\<close> is armed in a state: its row is there, \<^verbatim>\<open>scheduled_tasks\<close> holds
  task \<open>t\<close> under \<open>i\<close> and under no other id, and \<open>t\<close> is the given task of the loop.
\<close>

definition armed :: "int \<Rightarrow> ScheduledAction \<Rightarrow> nat \<Rightarrow> Task \<Rightarrow> 'h runtime \<Rightarrow> bool" where
  "armed i a t task s \<longleftrightarrow>
     get_scheduled_action i s = Some a \<and>
     map_of (scheduled_tasks s) i = Some t \<and>
     t < length (loop_tasks s) \<and> loop_tasks s ! t = task \<and>
     (\<forall>j. map_of (scheduled_tasks s) j = Some t \<longrightarrow> j = i)"

text \<open>
  The charge call of \<^verbatim>\<open>RecurrentPaymentAction.run\<close> is reached for user \<open>u\<close>: the id is
  truthy, the user exists and has a subscription whose price is set and not zero, and
  a payment token.
\<close>

definition chargeable :: "int \<Rightarrow> 'h runtime \<Rightarrow> bool" where
  "chargeable u s \<longleftrightarrow>
     u \<noteq> 0 \<and>
     (case map_of (users s) u of
        None \<Rightarrow> False
      | Some user \<Rightarrow>
          payment_token user \<noteq> None \<and>
          (case subscription user of
             None \<Rightarrow> False
           | Some plan \<Rightarrow> plan_price plan \<noteq> None \<and> plan_price plan \<noteq> Some 0))"

section \<open>Example states\<close>

text \<open>The state of a process that has just imported the scheduler module.\<close>

definition initial :: "'h runtime" where
  "initial = \<lparr>handlers = [], scheduled_tasks = [], loop_tasks = [], scheduled_actions = [],
     next_action_id = 1, users = [], log_records = []\<rparr>"

text \<open>
  Two actions of type \<^verbatim>\<open>kek\<close> were scheduled for user 7 (ids 1 and 2), then the second was
  cancelled: row 1 is pending, row 2 is done, no row has id 3.
\<close>

definition kek_rows :: "nat runtime" where
  "kek_rows =
     snd (raw_cancel_action 2
       (snd (raw_schedule_action ''kek'' 200 [(''user_id'', PyInt 7)]
         (snd (raw_schedule_action ''kek'' 100 [(''user_id'', PyInt 7)] initial)))))"

text \<open>
  Three callables for the examples: number 0 returns cleanly, number 1 raises
  \<^verbatim>\<open>ValueError\<close>, every other one raises \<^verbatim>\<open>asyncio.CancelledError\<close>; none touches the
  state.
\<close>

fun kek_call :: "nat \<Rightarrow> datetime \<Rightarrow> kwargs \<Rightarrow> (nat, unit) coroutine" where
  "kek_call 0 dt kw s = (Inr (), s)"
| "kek_call (Suc 0) dt kw s = (Inl ValueError, s)"
| "kek_call (Suc (Suc n)) dt kw s = (Inl CancelledError, s)"

text \<open>
  They are registered as \<^verbatim>\<open>kek\<close>, \<^verbatim>\<open>kek_bad\<close> and \<^verbatim>\<open>kek_cancelled\<close>; one action of each
  type and one of the unregistered type \<^verbatim>\<open>kek_unknown\<close> are scheduled (ids 1 to 4).
\<close>

definition kek_armed :: "nat runtime" where
  "kek_armed =
     snd (raw_schedule_action ''kek_unknown'' 100 []
       (snd (raw_schedule_action ''kek_cancelled'' 100 []
         (snd (raw_schedule_action ''kek_bad'' 100 []
           (snd (raw_schedule_action ''kek'' 100 []
             (initial\<lparr>handlers := [(''kek'', 0), (''kek_bad'', 1), (''kek_cancelled'', 2)]\<rparr>))))))))"


text \<open>\<^verbatim>\<open>RecurrentPaymentAction(user_id=3, retries_left=2)\<close>.\<close>

definition recurrent_3_2 :: Action where
  "recurrent_3_2 =
     \<lparr>cls = RecurrentPaymentAction,
      attrs = [(''user_id'', PyInt 3), (''retries_left'', PyInt 2)]\<rparr>"

text \<open>
  A process that has just started: the table holds rows of an earlier run (row 1 pending
  and due at 100, row 2 done, row 3 pending and due at 500), no task exists yet.
\<close>

definition restarted :: "nat runtime" where
  "restarted =
     initial\<lparr>handlers := [(''kek'', 0)],
       scheduled_actions :=
         [(1, \<lparr>sa_user_id = PyNone, sa_time = 100, sa_done = False, sa_type = ''kek'',
               sa_args = []\<rparr>),
          (2, \<lparr>sa_user_id = PyNone, sa_time = 200, sa_done = True, sa_type = ''kek'',
               sa_args = []\<rparr>),
          (3, \<lparr>sa_user_id = PyNone, sa_time = 500, sa_done = False, sa_type = ''kek'',
               sa_args = []\<rparr>)],
       next_action_id := 4\<rparr>"

text \<open>
  The registry after the import of \<^verbatim>\<open>billing_actions.py\<close>: the class statements and the
  decorator, in the order of the file.
\<close>

definition billing_module :: "billing_handler runtime" where
  "billing_module =
     snd (init_subclass ''pishov_nahui'' (DoHandle KickInactiveAction)
       (snd (init_subclass ''extra_plan_reset'' (DoHandle ExtraPlanResetAction)
         (snd (init_subclass ''extra_plan_payment_retry'' (DoHandle ExtraPlanPaymentRetryAction)
           (snd (raw_action_handler ''recurrent_payment_retry'' DeprecatedRetryRecPaymentHandler
             (snd (init_subclass ''recurrent_payment'' (DoHandle RecurrentPaymentAction)
               initial)))))))))"

text \<open>
  The payment gateway declines, the Telegram message is rejected with \<^verbatim>\<open>BadRequest\<close>, and
  the classes that are not embedded do nothing.
\<close>

definition declined :: external where
  "declined =
     \<lparr>cp_request = Inl CpPaymentError, activate_plan_end = 0, tg_send = Some BadRequest,
      other_run = (\<lambda>self dt s. (Inr (), s))\<rparr>"

text \<open>
  User 7 has a subscription and was notified of an unpaid advance service. A payment retry
  and an \<^verbatim>\<open>ExtraPlanResetAction\<close> are scheduled for the user (ids 1 and 2, tasks 0 and 1),
  then \<^verbatim>\<open>cancel_extra_punishments(7)\<close> is called, then the task of the reset fires.
\<close>

definition user_7 :: User where
  "user_7 =
     \<lparr>telegram_id = Some ''700'', subscription = Some \<lparr>plan_id = 1, plan_price = Some 490\<rparr>,
      payment_token = Some ''tok'', extra_data = [(''advance_service_state'', PyInt 3)]\<rparr>"

definition retry_kw :: kwargs where
  "retry_kw =
     [(''user_id'', PyInt 7), (''retries_left'', PyInt 2),
      (''deadline'', PyStr ''2024-01-31T00:00:00'')]"

definition reset_scheduled :: "billing_handler runtime" where
  "reset_scheduled =
     snd (schedule \<lparr>cls = ExtraPlanResetAction, attrs = [(''user_id'', PyInt 7)]\<rparr> 2000
       (snd (schedule \<lparr>cls = ExtraPlanPaymentRetryAction, attrs = retry_kw\<rparr> 1000
          (billing_module\<lparr>users := [(7, user_7)]\<rparr>))))"

definition reset_after_cancel :: "billing_handler runtime" where
  "reset_after_cancel = snd (cancel_extra_punishments 7 reset_scheduled)"

definition reset_fired :: "billing_handler runtime" where
  "reset_fired = fire (billing_call declined) 1 reset_after_cancel"

text \<open>
  User 3 has a subscription and a payment token; \<^verbatim>\<open>RecurrentPaymentAction(user_id=3,
  retries_left=2)\<close> is scheduled for time 0 (id 1, task 0).
\<close>

definition user_3 :: User where
  "user_3 =
     \<lparr>telegram_id = Some ''300'', subscription = Some \<lparr>plan_id = 1, plan_price = Some 490\<rparr>,
      payment_token = Some ''tok'', extra_data = []\<rparr>"

definition recurrent_scheduled :: "billing_handler runtime" where
  "recurrent_scheduled =
     snd (schedule recurrent_3_2 0 (billing_module\<lparr>users := [(3, user_3)]\<rparr>))"

section \<open>Properties: frame lemmas\<close>

lemma get_logging [simp]:
  "get_scheduled_action i (logging l m s) = get_scheduled_action i s"
  by (simp add: get_scheduled_action_def logging_def)

lemma get_task_cancel [simp]:
  "get_scheduled_action i (task_cancel t s) = get_scheduled_action i s"
  by (simp add: get_scheduled_action_def task_cancel_def)

lemma get_scheduled_tasks_update [simp]:
  "get_scheduled_action i (s\<lparr>scheduled_tasks := x\<rparr>) = get_scheduled_action i s"
  by (simp add: get_scheduled_action_def)

lemma get_loop_tasks_update [simp]:
  "get_scheduled_action i (s\<lparr>loop_tasks := x\<rparr>) = get_scheduled_action i s"
  by (simp add: get_scheduled_action_def)

lemma get_set_done:
  "get_scheduled_action j (set_done i s) =
     (if j = i then map_option (\<lambda>a. a\<lparr>sa_done := True\<rparr>) (get_scheduled_action i s)
      else get_scheduled_action j s)"
  by (simp add: get_scheduled_action_def set_done_def AList.map_of_map_entry split: option.split)

lemma raw_cancel_action_get:
  "get_scheduled_action j (snd (raw_cancel_action i s)) =
     (if j = i then map_option (\<lambda>a. a\<lparr>sa_done := True\<rparr>) (get_scheduled_action i s)
      else get_scheduled_action j s)"
  by (simp add: raw_cancel_action_def Let_def get_set_done split: option.split)

lemma cancel_each_keeps_done:
  "get_scheduled_action j s = Some a \<Longrightarrow> sa_done a \<Longrightarrow>
   get_scheduled_action j (cancel_each ids s) = Some a"
proof (induction ids arbitrary: s)
  case Nil
  then show ?case by (simp add: cancel_each_def)
next
  case (Cons i ids)
  have "get_scheduled_action j (snd (raw_cancel_action i s)) = Some a"
    using Cons.prems by (cases a) (auto simp add: raw_cancel_action_get)
  from Cons.IH[OF this Cons.prems(2)] show ?case by (simp add: cancel_each_def)
qed

lemma kek_rows_eval:
  "kek_rows = \<lparr>handlers = [], scheduled_tasks = [(1, 0)],
     loop_tasks =
       [\<lparr>task_action_id = 1, task_action_type = ''kek'', task_dt = 100,
          task_kwargs = [(''user_id'', PyInt 7)], task_status = Waiting\<rparr>,
        \<lparr>task_action_id = 2, task_action_type = ''kek'', task_dt = 200,
          task_kwargs = [(''user_id'', PyInt 7)], task_status = Cancelled\<rparr>],
     scheduled_actions =
       [(1, \<lparr>sa_user_id = PyInt 7, sa_time = 100, sa_done = False, sa_type = ''kek'',
             sa_args = [(''user_id'', PyInt 7)]\<rparr>),
        (2, \<lparr>sa_user_id = PyInt 7, sa_time = 200, sa_done = True, sa_type = ''kek'',
             sa_args = [(''user_id'', PyInt 7)]\<rparr>)],
     next_action_id = 3, users = [], log_records = []\<rparr>"
  by (simp add: kek_rows_def initial_def raw_schedule_action_def raw_cancel_action_def
      create_task_def new_task_def task_cancel_def set_done_def get_scheduled_action_def Let_def)

section \<open>The registry (C6)\<close>

lemma init_subclass_duplicate:
  "map_of (handlers s) action_name = Some h \<Longrightarrow>
   init_subclass action_name do_handle s = (Inl ValueError, s)"
  by (simp add: init_subclass_def)

lemma init_subclass_fresh:
  "map_of (handlers s) action_name = None \<Longrightarrow>
   init_subclass action_name do_handle s =
     (Inr (), s\<lparr>handlers := AList.update action_name do_handle (handlers s)\<rparr>)"
  by (simp add: init_subclass_def)

text \<open>
  C6. Declaring a typed action under a name that is taken raises \<^verbatim>\<open>ValueError\<close>
  (\<open>init_subclass_duplicate\<close>). The decorator \<^verbatim>\<open>raw_action_handler\<close> has no such check:
  used twice with the name \<^verbatim>\<open>kek\<close>, first on \<open>f\<close> then on \<open>g\<close>, it returns normally both
  times and leaves \<open>g\<close> as the only handler of \<^verbatim>\<open>kek\<close>; the handler \<open>f\<close> is replaced in
  silence.
\<close>

theorem raw_action_handler_replaces:
  "raw_action_handler ''kek'' g (snd (raw_action_handler ''kek'' f initial)) =
     (Inr g, initial\<lparr>handlers := [(''kek'', g)]\<rparr>)"
  by (simp add: raw_action_handler_def initial_def)

lemma raw_action_handler_replaces_typed:
  "raw_action_handler ''kek'' g (snd (init_subclass ''kek'' do_handle initial)) =
     (Inr g, initial\<lparr>handlers := [(''kek'', g)]\<rparr>)"
  by (simp add: raw_action_handler_def init_subclass_def initial_def)

section \<open>Cancellation (C4)\<close>

text \<open>
  C4. \<^verbatim>\<open>raw_cancel_action\<close> never raises. On an id without a row it only logs a warning;
  on a row that is already done it only logs a warning; on a pending row it sets
  \<^verbatim>\<open>done = True\<close>. A row that is done stays exactly as it is through every sequence of
  cancel calls, on whatever ids.
\<close>

theorem raw_cancel_action_idempotent:
  "fst (raw_cancel_action i s) = Inr ()
   \<and> (get_scheduled_action i s = None \<longrightarrow>
        snd (raw_cancel_action i s) = logging WARNING (CancelMissing i) s)
   \<and> (\<forall>a. get_scheduled_action i s = Some a \<and> sa_done a \<longrightarrow>
        snd (raw_cancel_action i s) = logging WARNING (CancelAlreadyDone i) s)
   \<and> (\<forall>a. get_scheduled_action i s = Some a \<and> \<not> sa_done a \<longrightarrow>
        get_scheduled_action i (snd (raw_cancel_action i s)) = Some (a\<lparr>sa_done := True\<rparr>))
   \<and> (\<forall>j a ids. get_scheduled_action j s = Some a \<and> sa_done a \<longrightarrow>
        get_scheduled_action j (cancel_each ids s) = Some a)"
proof (intro conjI allI impI)
  show "fst (raw_cancel_action i s) = Inr ()"
    by (simp add: raw_cancel_action_def Let_def split: option.split)
next
  assume "get_scheduled_action i s = None"
  then show "snd (raw_cancel_action i s) = logging WARNING (CancelMissing i) s"
    by (simp add: raw_cancel_action_def)
next
  fix a assume "get_scheduled_action i s = Some a \<and> sa_done a"
  then show "snd (raw_cancel_action i s) = logging WARNING (CancelAlreadyDone i) s"
    by (simp add: raw_cancel_action_def)
next
  fix a assume "get_scheduled_action i s = Some a \<and> \<not> sa_done a"
  then show "get_scheduled_action i (snd (raw_cancel_action i s)) = Some (a\<lparr>sa_done := True\<rparr>)"
    by (simp add: raw_cancel_action_get)
next
  fix j a ids assume "get_scheduled_action j s = Some a \<and> sa_done a"
  then show "get_scheduled_action j (cancel_each ids s) = Some a"
    by (simp add: cancel_each_keeps_done)
qed

theorem raw_cancel_action_idempotent_witness:
  "snd (raw_cancel_action 3 kek_rows) = logging WARNING (CancelMissing 3) kek_rows
   \<and> snd (raw_cancel_action 2 kek_rows) = logging WARNING (CancelAlreadyDone 2) kek_rows
   \<and> map_option sa_done (get_scheduled_action 1 kek_rows) = Some False
   \<and> map_option sa_done (get_scheduled_action 1 (snd (raw_cancel_action 1 kek_rows))) = Some True
   \<and> map_option sa_done (get_scheduled_action 2 (cancel_each [2, 1, 2, 3] kek_rows)) = Some True"
proof -
  have g3: "get_scheduled_action 3 kek_rows = None"
    by (simp add: kek_rows_eval get_scheduled_action_def)
  have g2: "get_scheduled_action 2 kek_rows =
      Some \<lparr>sa_user_id = PyInt 7, sa_time = 200, sa_done = True, sa_type = ''kek'',
             sa_args = [(''user_id'', PyInt 7)]\<rparr>"
    by (simp add: kek_rows_eval get_scheduled_action_def)
  have g1: "get_scheduled_action 1 kek_rows =
      Some \<lparr>sa_user_id = PyInt 7, sa_time = 100, sa_done = False, sa_type = ''kek'',
             sa_args = [(''user_id'', PyInt 7)]\<rparr>"
    by (simp add: kek_rows_eval get_scheduled_action_def)
  have keep: "get_scheduled_action 2 (cancel_each [2, 1, 2, 3] kek_rows) =
      Some \<lparr>sa_user_id = PyInt 7, sa_time = 200, sa_done = True, sa_type = ''kek'',
             sa_args = [(''user_id'', PyInt 7)]\<rparr>"
    using raw_cancel_action_idempotent [of 2 kek_rows] g2 by fastforce
  have c3: "snd (raw_cancel_action 3 kek_rows) = logging WARNING (CancelMissing 3) kek_rows"
    using raw_cancel_action_idempotent [of 3 kek_rows] g3 by blast
  have c2: "snd (raw_cancel_action 2 kek_rows) = logging WARNING (CancelAlreadyDone 2) kek_rows"
    using raw_cancel_action_idempotent [of 2 kek_rows] g2 by fastforce
  have c1: "get_scheduled_action 1 (snd (raw_cancel_action 1 kek_rows)) =
      Some \<lparr>sa_user_id = PyInt 7, sa_time = 100, sa_done = True, sa_type = ''kek'',
             sa_args = [(''user_id'', PyInt 7)]\<rparr>"
    using raw_cancel_action_idempotent [of 1 kek_rows] g1 by fastforce
  show ?thesis
    by (simp add: c1 c2 c3 g1 keep)
qed

section \<open>The execution wrapper (C3)\<close>

lemma map_entry_absent: "map_of xs k = None \<Longrightarrow> AList.map_entry k f xs = xs"
  by (induction xs) (auto split: if_splits)

lemma set_done_absent: "get_scheduled_action i s = None \<Longrightarrow> set_done i s = s"
  by (simp add: get_scheduled_action_def set_done_def map_entry_absent)

lemma perform_action_unknown:
  "map_of (handlers s) ty = None \<Longrightarrow>
   perform_action call i ty dt kw s = (Inr (), logging ERROR (HandlerNotSet ty) s)"
  by (simp add: perform_action_def)

lemma perform_action_raise:
  "map_of (handlers s) ty = Some h \<Longrightarrow> call h dt kw s = (Inl e, s1) \<Longrightarrow>
   perform_action call i ty dt kw s = (Inl e, s1)"
  by (simp add: perform_action_def)

lemma perform_action_clean:
  "map_of (handlers s) ty = Some h \<Longrightarrow> call h dt kw s = (Inr u, s1) \<Longrightarrow>
   perform_action call i ty dt kw s = (Inr (), set_done i s1)"
  by (simp add: perform_action_def set_done_absent split: option.split)

lemma task_unknown:
  "map_of (handlers s) ty = None \<Longrightarrow>
   scheduled_action_task call i ty dt kw s = (Inr (), logging ERROR (HandlerNotSet ty) s)"
  by (simp add: scheduled_action_task_def perform_action_unknown)

lemma task_raise:
  "map_of (handlers s) ty = Some h \<Longrightarrow> call h dt kw s = (Inl e, s1) \<Longrightarrow>
   scheduled_action_task call i ty dt kw s =
     (Inr (), if e = CancelledError then s1 else logging ERROR (TaskException e) s1)"
  by (simp add: scheduled_action_task_def perform_action_raise split: exn.split)

lemma task_clean:
  "map_of (handlers s) ty = Some h \<Longrightarrow> call h dt kw s = (Inr u, s1) \<Longrightarrow>
   scheduled_action_task call i ty dt kw s = (Inr (), set_done i s1)"
  by (simp add: scheduled_action_task_def perform_action_clean)

lemma kek_armed_handlers:
  "handlers kek_armed = [(''kek'', 0), (''kek_bad'', 1), (''kek_cancelled'', 2)]"
  by (simp add: kek_armed_def initial_def raw_schedule_action_def create_task_def new_task_def Let_def)

lemma kek_armed_rows:
  "scheduled_actions kek_armed =
     [(1, \<lparr>sa_user_id = PyNone, sa_time = 100, sa_done = False, sa_type = ''kek'',
           sa_args = []\<rparr>),
      (2, \<lparr>sa_user_id = PyNone, sa_time = 100, sa_done = False, sa_type = ''kek_bad'',
           sa_args = []\<rparr>),
      (3, \<lparr>sa_user_id = PyNone, sa_time = 100, sa_done = False, sa_type = ''kek_cancelled'',
           sa_args = []\<rparr>),
      (4, \<lparr>sa_user_id = PyNone, sa_time = 100, sa_done = False, sa_type = ''kek_unknown'',
           sa_args = []\<rparr>)]"
  by (simp add: kek_armed_def initial_def raw_schedule_action_def create_task_def new_task_def Let_def)

text \<open>
  C3 as stated fails on \<^verbatim>\<open>asyncio.CancelledError\<close>: the handler registered
  as \<^verbatim>\<open>kek_cancelled\<close> raises it, and the wrapper returns with the state exactly as it
  was, so nothing was logged (and row 3 is still pending).
\<close>

theorem scheduled_action_task_cancelled_not_logged:
  "fst (kek_call 2 100 [] kek_armed) = Inl CancelledError
   \<and> map_of (handlers kek_armed) ''kek_cancelled'' = Some 2
   \<and> scheduled_action_task kek_call 3 ''kek_cancelled'' 100 [] kek_armed = (Inr (), kek_armed)"
  by (simp add: numeral_2_eq_2 scheduled_action_task_def perform_action_def kek_armed_handlers)

text \<open>
  C3, amended. For the task of action \<open>i\<close> of type \<open>ty\<close>:
  \<^item> no handler registered for \<open>ty\<close>: the wrapper logs an error and changes nothing else;
  \<^item> the handler raises \<open>e\<close>: the wrapper returns normally, writes nothing to the table, and
    logs \<open>e\<close> unless it is \<^verbatim>\<open>asyncio.CancelledError\<close>, which it passes over in silence;
  \<^item> the handler returns cleanly: the wrapper sets \<^verbatim>\<open>done = True\<close> on row \<open>i\<close>;
  \<^item> hence, for a pending row \<open>i\<close> that the handler itself leaves as it is, the row is done
    afterwards if and only if a handler was registered and returned cleanly.
\<close>

theorem scheduled_action_task_marks_done:
  "(map_of (handlers s) ty = None \<longrightarrow>
      scheduled_action_task call i ty dt kw s = (Inr (), logging ERROR (HandlerNotSet ty) s))
   \<and> (\<forall>h e s1. map_of (handlers s) ty = Some h \<and> call h dt kw s = (Inl e, s1) \<longrightarrow>
      scheduled_action_task call i ty dt kw s =
        (Inr (), if e = CancelledError then s1 else logging ERROR (TaskException e) s1))
   \<and> (\<forall>h s1. map_of (handlers s) ty = Some h \<and> call h dt kw s = (Inr (), s1) \<longrightarrow>
      scheduled_action_task call i ty dt kw s = (Inr (), set_done i s1))
   \<and> (\<forall>a. get_scheduled_action i s = Some a \<and> \<not> sa_done a \<and>
          (\<forall>h. map_of (handlers s) ty = Some h \<longrightarrow>
             get_scheduled_action i (snd (call h dt kw s)) = Some a) \<longrightarrow>
      get_scheduled_action i (snd (scheduled_action_task call i ty dt kw s)) =
        Some (a\<lparr>sa_done :=
          (\<exists>h s1. map_of (handlers s) ty = Some h \<and> call h dt kw s = (Inr (), s1))\<rparr>))"
proof (intro conjI allI impI)
  fix a
  assume A: "get_scheduled_action i s = Some a \<and> \<not> sa_done a \<and>
          (\<forall>h. map_of (handlers s) ty = Some h \<longrightarrow>
             get_scheduled_action i (snd (call h dt kw s)) = Some a)"
  show "get_scheduled_action i (snd (scheduled_action_task call i ty dt kw s)) =
        Some (a\<lparr>sa_done :=
          (\<exists>h s1. map_of (handlers s) ty = Some h \<and> call h dt kw s = (Inr (), s1))\<rparr>)"
  proof (cases "map_of (handlers s) ty")
    case None
    then show ?thesis using A by (simp add: task_unknown)
  next
    case (Some h)
    obtain r s1 where C: "call h dt kw s = (r, s1)" by (cases "call h dt kw s")
    with A Some have G: "get_scheduled_action i s1 = Some a" by fastforce
    show ?thesis
    proof (cases r)
      case (Inl e)
      then show ?thesis using Some C G A by (simp add: task_raise)
    next
      case (Inr u)
      then show ?thesis using Some C G by (simp add: task_clean get_set_done)
    qed
  qed
qed (simp_all add: task_unknown task_raise task_clean)

theorem scheduled_action_task_marks_done_witness:
  "snd (scheduled_action_task kek_call 4 ''kek_unknown'' 100 [] kek_armed) =
      logging ERROR (HandlerNotSet ''kek_unknown'') kek_armed
   \<and> snd (scheduled_action_task kek_call 2 ''kek_bad'' 100 [] kek_armed) =
      logging ERROR (TaskException ValueError) kek_armed
   \<and> snd (scheduled_action_task kek_call 3 ''kek_cancelled'' 100 [] kek_armed) = kek_armed
   \<and> snd (scheduled_action_task kek_call 1 ''kek'' 100 [] kek_armed) = set_done 1 kek_armed
   \<and> map_option sa_done (get_scheduled_action 2 kek_armed) = Some False
   \<and> map_option sa_done
       (get_scheduled_action 2 (snd (scheduled_action_task kek_call 2 ''kek_bad'' 100 [] kek_armed)))
       = Some False
   \<and> map_option sa_done (get_scheduled_action 1 kek_armed) = Some False
   \<and> map_option sa_done
       (get_scheduled_action 1 (snd (scheduled_action_task kek_call 1 ''kek'' 100 [] kek_armed)))
       = Some True"
proof -
  have h4: "map_of (handlers kek_armed) ''kek_unknown'' = None"
    and h2: "map_of (handlers kek_armed) ''kek_bad'' = Some 1"
    and h3: "map_of (handlers kek_armed) ''kek_cancelled'' = Some 2"
    and h1: "map_of (handlers kek_armed) ''kek'' = Some 0"
    by (simp_all add: kek_armed_handlers)
  have k2: "kek_call 1 100 [] kek_armed = (Inl ValueError, kek_armed)"
    and k3: "kek_call 2 100 [] kek_armed = (Inl CancelledError, kek_armed)"
    and k1: "kek_call 0 100 [] kek_armed = (Inr (), kek_armed)"
    by (simp_all add: numeral_2_eq_2)
  have g1: "get_scheduled_action 1 kek_armed =
      Some \<lparr>sa_user_id = PyNone, sa_time = 100, sa_done = False, sa_type = ''kek'',
           sa_args = []\<rparr>"
    and g2: "get_scheduled_action 2 kek_armed =
      Some \<lparr>sa_user_id = PyNone, sa_time = 100, sa_done = False, sa_type = ''kek_bad'',
           sa_args = []\<rparr>"
    by (simp_all add: get_scheduled_action_def kek_armed_rows)
  have c4: "snd (scheduled_action_task kek_call 4 ''kek_unknown'' 100 [] kek_armed) =
      logging ERROR (HandlerNotSet ''kek_unknown'') kek_armed"
    using scheduled_action_task_marks_done [of kek_armed "''kek_unknown''" kek_call 4 100 "[]"] h4
    by simp
  have c2: "snd (scheduled_action_task kek_call 2 ''kek_bad'' 100 [] kek_armed) =
      logging ERROR (TaskException ValueError) kek_armed"
    using scheduled_action_task_marks_done [of kek_armed "''kek_bad''" kek_call 2 100 "[]"] h2 k2
    by simp
  have c3: "snd (scheduled_action_task kek_call 3 ''kek_cancelled'' 100 [] kek_armed) = kek_armed"
    using scheduled_action_task_marks_done [of kek_armed "''kek_cancelled''" kek_call 3 100 "[]"]
      h3 k3
    by simp
  have c1: "snd (scheduled_action_task kek_call 1 ''kek'' 100 [] kek_armed) = set_done 1 kek_armed"
    using scheduled_action_task_marks_done [of kek_armed "''kek''" kek_call 1 100 "[]"] h1 k1
    by simp
  show ?thesis
    by (simp add: c1 c2 c3 c4 g1 g2 get_set_done)
qed

section \<open>Handles (C9)\<close>




section \<open>Serialisation of typed actions (C8, C10)\<close>

lemma those_map_Some:
  "(\<And>x. x \<in> set xs \<Longrightarrow> f x = Some (g x)) \<Longrightarrow> those (map f xs) = Some (map g xs)"
  by (induction xs) auto

lemma rebuild_alist:
  assumes "distinct (map fst kvs)"
  shows "map (\<lambda>f. (f, the (map_of kvs f))) (map fst kvs) = kvs"
proof -
  have "\<And>x. x \<in> set kvs \<Longrightarrow> (fst x, the (map_of kvs (fst x))) = x"
    using assms by (metis map_of_is_SomeI option.sel prod.collapse)
  then show ?thesis by (simp add: comp_def map_idI)
qed

lemma serialize_wf:
  assumes "wf_action self"
  shows "serialize self = Inr (attrs self)"
proof -
  have d: "distinct (map fst (attrs self))"
    and k: "field_names (cls self) = map fst (attrs self)"
    using assms by (simp_all add: wf_action_def)
  have "those (map (\<lambda>f. map_option (Pair f) (map_of (attrs self) f)) (map fst (attrs self)))
      = Some (map (\<lambda>f. (f, the (map_of (attrs self) f))) (map fst (attrs self)))"
    by (rule those_map_Some)
      (use d in \<open>auto simp: map_of_eq_None_iff[symmetric] simp del: map_of_eq_None_iff\<close>)
  moreover have "map (\<lambda>f. (f, the (map_of (attrs self) f))) (map fst (attrs self)) = attrs self"
    using d by (rule rebuild_alist)
  ultimately show ?thesis by (simp add: serialize_def k)
qed

lemma dataclass_init_wf:
  assumes "wf_action self"
  shows "dataclass_init (cls self) (attrs self) = Inr self"
proof -
  have d: "distinct (map fst (attrs self))"
    and k: "field_names (cls self) = map fst (attrs self)"
    using assms by (simp_all add: wf_action_def)
  have k': "map fst (cls_fields (cls self)) = map fst (attrs self)"
    using k by (simp add: field_names_def)
  have "those (map (\<lambda>(f, d). (case map_of (attrs self) f of
                   Some v \<Rightarrow> Some (f, v)
                 | None \<Rightarrow> map_option (Pair f) d)) (cls_fields (cls self)))
      = Some (map (\<lambda>(f, d). (f, the (map_of (attrs self) f))) (cls_fields (cls self)))"
  proof (rule those_map_Some)
    fix x assume "x \<in> set (cls_fields (cls self))"
    then have "fst x \<in> set (map fst (attrs self))"
      using k' by (metis image_eqI set_map)
    then obtain v where "map_of (attrs self) (fst x) = Some v"
      by (metis map_of_eq_None_iff not_Some_eq set_map)
    then show "(case x of (f, d) \<Rightarrow>
         case map_of (attrs self) f of None \<Rightarrow> map_option (Pair f) d | Some v \<Rightarrow> Some (f, v))
        = Some (case x of (f, d) \<Rightarrow> (f, the (map_of (attrs self) f)))"
      by (cases x) simp
  qed
  moreover have "map (\<lambda>(f, d). (f, the (map_of (attrs self) f))) (cls_fields (cls self))
       = map (\<lambda>f. (f, the (map_of (attrs self) f))) (map fst (cls_fields (cls self)))"
    by (simp add: case_prod_unfold comp_def)
  moreover have "map (\<lambda>f. (f, the (map_of (attrs self) f))) (map fst (attrs self)) = attrs self"
    using d by (rule rebuild_alist)
  ultimately show ?thesis
    using k k' by (simp add: dataclass_init_def list_all_iff)
qed

text \<open>
  C8. For every instance of a concrete action class (every declared field set, nothing
  else): \<^verbatim>\<open>serialize\<close> returns a mapping whose keys are exactly the declared fields, in
  declaration order, and \<^verbatim>\<open>deserialize\<close> of the class on that mapping returns an instance
  equal to the first (same class, same field values).
\<close>

theorem deserialize_serialize:
  "wf_action self \<Longrightarrow>
   (\<exists>data. serialize self = Inr data \<and> map fst data = field_names (cls self) \<and>
      deserialize (cls self) data = Inr self)"
proof -
  assume wf: "wf_action self"
  have "list_all (\<lambda>k. k \<in> set (field_names (cls self))) (map fst (attrs self))"
    using wf by (simp add: wf_action_def list_all_iff)
  then have "deserialize (cls self) (attrs self) = Inr self"
    using dataclass_init_wf[OF wf] by (simp add: deserialize_def)
  then show ?thesis
    using serialize_wf[OF wf] wf by (simp add: wf_action_def)
qed

theorem deserialize_serialize_witness:
  "wf_action recurrent_3_2
   \<and> serialize recurrent_3_2 = Inr [(''user_id'', PyInt 3), (''retries_left'', PyInt 2)]
   \<and> deserialize RecurrentPaymentAction [(''user_id'', PyInt 3), (''retries_left'', PyInt 2)]
       = Inr recurrent_3_2"
proof -
  have wf: "wf_action recurrent_3_2"
    by (simp add: wf_action_def recurrent_3_2_def RecurrentPaymentAction_def field_names_def)
  have ser: "serialize recurrent_3_2 = Inr [(''user_id'', PyInt 3), (''retries_left'', PyInt 2)]"
    by (simp add: serialize_def recurrent_3_2_def RecurrentPaymentAction_def field_names_def)
  have c: "cls recurrent_3_2 = RecurrentPaymentAction"
    by (simp add: recurrent_3_2_def)
  show ?thesis
    using deserialize_serialize [OF wf] wf ser c by simp
qed

text \<open>
  C10. \<^verbatim>\<open>deserialize\<close> raises \<^verbatim>\<open>AssertionError\<close> whenever a key of \<open>data\<close> is not a declared
  field of the class; whenever it returns an instance, every key of \<open>data\<close> is a declared
  field.
\<close>

theorem deserialize_unknown_field:
  "(\<forall>k. k \<in> set (map fst data) \<and> k \<notin> set (field_names c) \<longrightarrow>
       deserialize c data = Inl AssertionError)
   \<and> (\<forall>a. deserialize c data = Inr a \<longrightarrow> set (map fst data) \<subseteq> set (field_names c))"
  by (auto simp add: deserialize_def list_all_iff split: if_splits)

theorem deserialize_unknown_field_witness:
  "''stale'' \<in> set (map fst [(''user_id'', PyInt 3), (''stale'', PyNone), (''retries_left'', PyInt 2)])
   \<and> ''stale'' \<notin> set (field_names RecurrentPaymentAction)
   \<and> deserialize RecurrentPaymentAction
       [(''user_id'', PyInt 3), (''stale'', PyNone), (''retries_left'', PyInt 2)]
       = Inl AssertionError"
proof -
  have a: "''stale'' \<in> set (map fst [(''user_id'', PyInt 3), (''stale'', PyNone), (''retries_left'', PyInt 2)])"
    by simp
  have b: "''stale'' \<notin> set (field_names RecurrentPaymentAction)"
    by (simp add: RecurrentPaymentAction_def field_names_def)
  show ?thesis
    using deserialize_unknown_field
      [of "[(''user_id'', PyInt 3), (''stale'', PyNone), (''retries_left'', PyInt 2)]"
          RecurrentPaymentAction] a b
    by blast
qed

section \<open>Startup (C5)\<close>

lemma arm_all_frame:
  "scheduled_actions (arm_all rows s) = scheduled_actions s \<and>
   handlers (arm_all rows s) = handlers s \<and>
   users (arm_all rows s) = users s \<and>
   log_records (arm_all rows s) = log_records s \<and>
   next_action_id (arm_all rows s) = next_action_id s"
  by (induction rows arbitrary: s) (auto simp add: create_task_def)

lemma arm_all_loop_tasks:
  "loop_tasks (arm_all rows s) =
     loop_tasks s @ map (\<lambda>(i, a). new_task i (sa_type a) (sa_time a) (sa_args a)) rows"
  by (induction rows arbitrary: s) (auto simp add: create_task_def)

lemma arm_all_index_other:
  "i \<notin> fst ` set rows \<Longrightarrow>
   map_of (scheduled_tasks (arm_all rows s)) i = map_of (scheduled_tasks s) i"
  by (induction rows arbitrary: s) (auto simp add: create_task_def AList.update_conv')

lemma arm_all_armed:
  "distinct (map fst rows) \<Longrightarrow> (i, a) \<in> set rows \<Longrightarrow>
   \<exists>t. map_of (scheduled_tasks (arm_all rows s)) i = Some t \<and>
       t < length (loop_tasks (arm_all rows s)) \<and>
       loop_tasks (arm_all rows s) ! t = new_task i (sa_type a) (sa_time a) (sa_args a)"
proof (induction rows arbitrary: s)
  case Nil
  then show ?case by simp
next
  case (Cons r rows)
  obtain j b where r: "r = (j, b)" by (cases r)
  define s1 where "s1 = (snd (create_task j (sa_type b) (sa_time b) (sa_args b) s))
      \<lparr>scheduled_tasks := AList.update j (length (loop_tasks s)) (scheduled_tasks s)\<rparr>"
  have step: "arm_all (r # rows) s = arm_all rows s1"
    by (simp add: r s1_def create_task_def)
  show ?case
  proof (cases "(i, a) = (j, b)")
    case True
    then have "i \<notin> fst ` set rows" using Cons.prems(1) r by auto
    then have "map_of (scheduled_tasks (arm_all rows s1)) i = Some (length (loop_tasks s))"
      using True by (simp add: arm_all_index_other s1_def AList.update_conv' create_task_def)
    moreover have "loop_tasks (arm_all rows s1) ! length (loop_tasks s) =
        new_task i (sa_type a) (sa_time a) (sa_args a)"
      using True by (simp add: arm_all_loop_tasks s1_def create_task_def nth_append)
    moreover have "length (loop_tasks s) < length (loop_tasks (arm_all rows s1))"
      by (simp add: arm_all_loop_tasks s1_def create_task_def)
    ultimately show ?thesis unfolding step by blast
  next
    case False
    then have "(i, a) \<in> set rows" using Cons.prems(2) r by auto
    moreover have "distinct (map fst rows)" using Cons.prems(1) by simp
    ultimately show ?thesis unfolding step by (rule Cons.IH[rotated])
  qed
qed

lemma run_frame:
  "scheduled_tasks (run s) = scheduled_tasks (arm_all (get_scheduled_actions s) s) \<and>
   loop_tasks (run s) = loop_tasks (arm_all (get_scheduled_actions s) s)"
  by (simp add: run_def logging_def)

text \<open>
  C5. Let the ids of the table be distinct (\<^verbatim>\<open>id\<close> is the primary key), and let row \<open>i\<close> be
  not done with its time not after \<open>now\<close>. Then \<^verbatim>\<open>run\<close> creates a task for it, built from
  the id, type, time and arguments of the row, and stores it in \<^verbatim>\<open>scheduled_tasks\<close> under
  \<open>i\<close>; the wait of that task sleeps for no time; and when the task wakes up it runs
  \<^verbatim>\<open>_scheduled_action_task\<close> (hence the registered handler) on the data of the row.
\<close>

theorem run_arms_overdue:
  assumes pk: "distinct (map fst (scheduled_actions s))"
    and row: "get_scheduled_action i s = Some a"
    and pending: "\<not> sa_done a"
    and overdue: "sa_time a \<le> now"
  shows "\<exists>t. map_of (scheduled_tasks (run s)) i = Some t \<and>
       t < length (loop_tasks (run s)) \<and>
       loop_tasks (run s) ! t = new_task i (sa_type a) (sa_time a) (sa_args a) \<and>
       wait_until (task_dt (loop_tasks (run s) ! t)) now = 0 \<and>
       fire call t (run s) =
         (let s1 = snd (scheduled_action_task call i (sa_type a) (sa_time a) (sa_args a) (run s))
          in s1\<lparr>loop_tasks := (loop_tasks s1)[t := (loop_tasks s1 ! t)\<lparr>task_status := Finished\<rparr>]\<rparr>)"
proof -
  have mem: "(i, a) \<in> set (get_scheduled_actions s)"
    using row pending
    by (auto simp add: get_scheduled_action_def get_scheduled_actions_def dest: map_of_SomeD)
  have d: "distinct (map fst (get_scheduled_actions s))"
    using pk by (simp add: get_scheduled_actions_def distinct_map_filter)
  from arm_all_armed[OF d mem, of s] obtain t where
    t: "map_of (scheduled_tasks (run s)) i = Some t" "t < length (loop_tasks (run s))"
       "loop_tasks (run s) ! t = new_task i (sa_type a) (sa_time a) (sa_args a)"
    by (auto simp add: run_frame)
  have w: "wait_until (task_dt (loop_tasks (run s) ! t)) now = 0"
    using overdue t(3) by (simp add: wait_until_def asyncio_sleep_def new_task_def)
  have f: "fire call t (run s) =
         (let s1 = snd (scheduled_action_task call i (sa_type a) (sa_time a) (sa_args a) (run s))
          in s1\<lparr>loop_tasks := (loop_tasks s1)[t := (loop_tasks s1 ! t)\<lparr>task_status := Finished\<rparr>]\<rparr>)"
    using t(2,3) by (simp add: fire_def new_task_def Let_def)
  show ?thesis using t w f by auto
qed

lemma restarted_run:
  "scheduled_tasks (run restarted) = [(1, 0), (3, 1)] \<and>
   loop_tasks (run restarted) = [new_task 1 ''kek'' 100 [], new_task 3 ''kek'' 500 []]"
  by (simp add: run_def logging_def get_scheduled_actions_def restarted_def initial_def
      create_task_def)

theorem run_arms_overdue_witness:
  "distinct (map fst (scheduled_actions restarted))
   \<and> map_option sa_done (get_scheduled_action 1 restarted) = Some False
   \<and> map_option sa_time (get_scheduled_action 1 restarted) = Some 100
   \<and> map_of (scheduled_tasks (run restarted)) 1 = Some 0
   \<and> loop_tasks (run restarted) ! 0 = new_task 1 ''kek'' 100 []
   \<and> wait_until (task_dt (loop_tasks (run restarted) ! 0)) 300 = 0
   \<and> map_option sa_done (get_scheduled_action 1 (fire kek_call 0 (run restarted))) = Some True"
proof -
  define a where "a = \<lparr>sa_user_id = PyNone, sa_time = 100, sa_done = False, sa_type = ''kek'',
      sa_args = []\<rparr>"
  have pk: "distinct (map fst (scheduled_actions restarted))"
    by (simp add: restarted_def initial_def)
  have row: "get_scheduled_action 1 restarted = Some a"
    by (simp add: get_scheduled_action_def restarted_def initial_def a_def)
  have pending: "\<not> sa_done a" and overdue: "sa_time a \<le> 300"
    by (simp_all add: a_def)
  from run_arms_overdue [OF pk row pending overdue, of kek_call] obtain t where
    t: "map_of (scheduled_tasks (run restarted)) 1 = Some t"
       "wait_until (task_dt (loop_tasks (run restarted) ! t)) 300 = 0"
       "fire kek_call t (run restarted) =
         (let s1 = snd (scheduled_action_task kek_call 1 (sa_type a) (sa_time a) (sa_args a)
                         (run restarted))
          in s1\<lparr>loop_tasks := (loop_tasks s1)[t := (loop_tasks s1 ! t)\<lparr>task_status := Finished\<rparr>]\<rparr>)"
    by blast
  have t0: "t = 0" using t(1) by (simp add: restarted_run)
  have h: "map_of (handlers (run restarted)) ''kek'' = Some 0"
    by (simp add: run_def logging_def arm_all_frame restarted_def initial_def)
  have g: "get_scheduled_action 1 (run restarted) = Some a"
    using row by (simp add: get_scheduled_action_def run_def logging_def arm_all_frame)
  have "snd (scheduled_action_task kek_call 1 ''kek'' 100 [] (run restarted)) =
      set_done 1 (run restarted)"
    using task_clean [of "run restarted" "''kek''" 0 kek_call 100 "[]" "()" "run restarted" 1] h
    by simp
  then have "get_scheduled_action 1 (fire kek_call 0 (run restarted)) =
      Some (a\<lparr>sa_done := True\<rparr>)"
    using t(3) g by (simp add: t0 a_def get_set_done Let_def)
  then show ?thesis
    using pk row t(2) by (simp add: t0 a_def restarted_run)
qed

section \<open>The index of tasks (C7)\<close>

lemma raw_cancel_action_unindexed:
  "get_scheduled_action i s = Some a \<Longrightarrow> \<not> sa_done a \<Longrightarrow>
   map_of (scheduled_tasks (snd (raw_cancel_action i s))) i = None"
  by (auto simp add: raw_cancel_action_def Let_def set_done_def logging_def task_cancel_def
      AList.delete_conv' split: option.split)

text \<open>
  C7 at a natural completion. Action 1 of type \<^verbatim>\<open>kek\<close> is pending and its task is stored in
  \<^verbatim>\<open>scheduled_tasks\<close>. Its task fires and the handler returns cleanly: the row is done, and
  \<^verbatim>\<open>scheduled_tasks\<close> still holds the task under id 1. \<^verbatim>\<open>_perform_action\<close> never removes the
  entry; only \<^verbatim>\<open>raw_cancel_action\<close> does (\<open>raw_cancel_action_unindexed\<close>).
\<close>

theorem completed_action_stays_indexed:
  "map_option sa_done (get_scheduled_action 1 kek_armed) = Some False
   \<and> map_of (scheduled_tasks kek_armed) 1 = Some 0
   \<and> map_option sa_done (get_scheduled_action 1 (fire kek_call 0 kek_armed)) = Some True
   \<and> map_of (scheduled_tasks (fire kek_call 0 kek_armed)) 1 = Some 0"
  by (simp add: fire_def scheduled_action_task_def perform_action_def get_scheduled_action_def
      set_done_def kek_armed_def initial_def raw_schedule_action_def create_task_def new_task_def
      Let_def)

section \<open>Bulk cancellation and the reset of the extra plan (C2)\<close>

lemma raw_cancel_action_frame:
  "handlers (snd (raw_cancel_action j s)) = handlers s \<and>
   users (snd (raw_cancel_action j s)) = users s \<and>
   next_action_id (snd (raw_cancel_action j s)) = next_action_id s \<and>
   length (loop_tasks (snd (raw_cancel_action j s))) = length (loop_tasks s)"
  by (simp add: raw_cancel_action_def Let_def logging_def set_done_def task_cancel_def
      split: option.split)

lemma raw_cancel_action_index_other:
  "k \<noteq> j \<Longrightarrow>
   map_of (scheduled_tasks (snd (raw_cancel_action j s))) k = map_of (scheduled_tasks s) k"
  by (simp add: raw_cancel_action_def Let_def logging_def set_done_def task_cancel_def
      AList.delete_conv' split: option.split)

lemma raw_cancel_action_index_sub:
  "map_of (scheduled_tasks (snd (raw_cancel_action j s))) k = Some t \<Longrightarrow>
   map_of (scheduled_tasks s) k = Some t"
  by (cases "k = j")
    (auto simp add: raw_cancel_action_def Let_def logging_def set_done_def task_cancel_def
      AList.delete_conv' split: option.splits if_splits)

lemma raw_cancel_action_task_other:
  "map_of (scheduled_tasks s) j \<noteq> Some t \<Longrightarrow>
   loop_tasks (snd (raw_cancel_action j s)) ! t = loop_tasks s ! t"
  by (auto simp add: raw_cancel_action_def Let_def logging_def set_done_def task_cancel_def
      split: option.split)

lemma raw_cancel_action_armed:
  assumes "armed i a t task s" and "j \<noteq> i"
  shows "armed i a t task (snd (raw_cancel_action j s))"
proof -
  have nj: "map_of (scheduled_tasks s) j \<noteq> Some t"
    using assms by (auto simp add: armed_def)
  show ?thesis
    unfolding armed_def
  proof (intro conjI allI impI)
    show "get_scheduled_action i (snd (raw_cancel_action j s)) = Some a"
      using assms by (simp add: armed_def raw_cancel_action_get)
    show "map_of (scheduled_tasks (snd (raw_cancel_action j s))) i = Some t"
      using assms by (simp add: armed_def raw_cancel_action_index_other)
    show "t < length (loop_tasks (snd (raw_cancel_action j s)))"
      using assms by (simp add: armed_def raw_cancel_action_frame)
    show "loop_tasks (snd (raw_cancel_action j s)) ! t = task"
      using assms nj by (simp add: armed_def raw_cancel_action_task_other)
    fix k assume "map_of (scheduled_tasks (snd (raw_cancel_action j s))) k = Some t"
    then have "map_of (scheduled_tasks s) k = Some t" by (rule raw_cancel_action_index_sub)
    then show "k = i" using assms by (simp add: armed_def)
  qed
qed

lemma cancel_each_armed:
  "armed i a t task s \<Longrightarrow> i \<notin> set ids \<Longrightarrow> armed i a t task (cancel_each ids s)"
proof (induction ids arbitrary: s)
  case Nil
  then show ?case by (simp add: cancel_each_def)
next
  case (Cons j ids)
  have "armed i a t task (snd (raw_cancel_action j s))"
    using Cons.prems by (simp add: raw_cancel_action_armed)
  then have "armed i a t task (cancel_each ids (snd (raw_cancel_action j s)))"
    using Cons.prems by (intro Cons.IH) simp_all
  then show ?case by (simp add: cancel_each_def)
qed

lemma cancel_each_frame:
  "handlers (cancel_each ids s) = handlers s \<and> users (cancel_each ids s) = users s"
  by (induction ids arbitrary: s) (simp_all add: cancel_each_def raw_cancel_action_frame)

lemma find_types:
  "(i, a) \<in> set (find_scheduled_actions uo dn (Some ts) s) \<Longrightarrow>
   sa_type a \<in> set ts \<and> (i, a) \<in> set (scheduled_actions s)"
  by (auto simp add: find_scheduled_actions_def)

lemma cancel_extra_punishments_armed:
  assumes pk: "distinct (map fst (scheduled_actions s))"
    and ar: "armed i a t task s"
    and ty: "sa_type a \<noteq> ''extra_plan_payment_retry''"
  shows "armed i a t task (snd (cancel_extra_punishments u s))"
proof -
  have "i \<notin> set (map fst (find_scheduled_actions (Some u) (Some False)
        (Some [''extra_plan_payment_retry'']) s))"
  proof
    assume "i \<in> set (map fst (find_scheduled_actions (Some u) (Some False)
        (Some [''extra_plan_payment_retry'']) s))"
    then obtain b where b: "(i, b) \<in> set (find_scheduled_actions (Some u) (Some False)
        (Some [''extra_plan_payment_retry'']) s)" by auto
    from find_types[OF b] have tb: "sa_type b = ''extra_plan_payment_retry''"
      and mb: "(i, b) \<in> set (scheduled_actions s)" by simp_all
    from mb pk have "map_of (scheduled_actions s) i = Some b" by simp
    then have "b = a" using ar by (simp add: armed_def get_scheduled_action_def)
    then show False using tb ty by simp
  qed
  then show ?thesis
    using ar by (simp add: cancel_extra_punishments_def cancel_each_armed)
qed

lemma deserialize_reset:
  "deserialize ExtraPlanResetAction [(''user_id'', v)] =
     Inr \<lparr>cls = ExtraPlanResetAction, attrs = [(''user_id'', v)]\<rparr>"
  by (simp add: deserialize_def dataclass_init_def field_names_def ExtraPlanResetAction_def)

lemma reset_is_not_recurrent: "ExtraPlanResetAction \<noteq> RecurrentPaymentAction"
  by (simp add: ExtraPlanResetAction_def RecurrentPaymentAction_def)

lemma reset_call:
  assumes "map_of (users s) u = Some user" and "u \<noteq> 0"
  shows "billing_call ext (DoHandle ExtraPlanResetAction) dt [(''user_id'', PyInt u)] s =
     (Inr (), set_extra_data u user ADVANCED_SERVICE_STATE UNUSED
                (logging INFO (ExtraPlanExpired (PyInt u)) s))"
proof -
  have "find_user (PyInt u) (logging INFO (ExtraPlanExpired (PyInt u)) s) = Inr (Some (u, user))"
    "find_user (PyInt u) s = Inr (Some (u, user))"
    using assms by (simp_all add: find_user_def logging_def)
  then show ?thesis
    by (simp add: deserialize_reset Action_run_def reset_is_not_recurrent
        ExtraPlanResetAction_run_def)
qed

lemma billing_module_handlers:
  "billing_module = initial\<lparr>handlers :=
     [(''recurrent_payment'', DoHandle RecurrentPaymentAction),
      (''recurrent_payment_retry'', DeprecatedRetryRecPaymentHandler),
      (''extra_plan_payment_retry'', DoHandle ExtraPlanPaymentRetryAction),
      (''extra_plan_reset'', DoHandle ExtraPlanResetAction),
      (''pishov_nahui'', DoHandle KickInactiveAction)]\<rparr>"
  by (simp add: billing_module_def init_subclass_def raw_action_handler_def initial_def)

lemma reset_scheduled_eval:
  "reset_scheduled = (billing_module\<lparr>users := [(7, user_7)]\<rparr>)
     \<lparr>scheduled_tasks := [(1, 0), (2, 1)],
      loop_tasks := [new_task 1 ''extra_plan_payment_retry'' 1000 retry_kw,
                     new_task 2 ''extra_plan_reset'' 2000 [(''user_id'', PyInt 7)]],
      scheduled_actions :=
        [(1, \<lparr>sa_user_id = PyInt 7, sa_time = 1000, sa_done = False,
              sa_type = ''extra_plan_payment_retry'', sa_args = retry_kw\<rparr>),
         (2, \<lparr>sa_user_id = PyInt 7, sa_time = 2000, sa_done = False,
              sa_type = ''extra_plan_reset'', sa_args = [(''user_id'', PyInt 7)]\<rparr>)],
      next_action_id := 3\<rparr>"
  by (simp add: reset_scheduled_def schedule_def serialize_def field_names_def
      ExtraPlanResetAction_def ExtraPlanPaymentRetryAction_def get_name_def
      raw_schedule_action_def create_task_def billing_module_handlers initial_def
      retry_kw_def)

lemma reset_after_cancel_eval:
  "reset_after_cancel = (billing_module\<lparr>users := [(7, user_7)]\<rparr>)
     \<lparr>scheduled_tasks := [(2, 1)],
      loop_tasks := [(new_task 1 ''extra_plan_payment_retry'' 1000 retry_kw)\<lparr>task_status := Cancelled\<rparr>,
                     new_task 2 ''extra_plan_reset'' 2000 [(''user_id'', PyInt 7)]],
      scheduled_actions :=
        [(1, \<lparr>sa_user_id = PyInt 7, sa_time = 1000, sa_done = True,
              sa_type = ''extra_plan_payment_retry'', sa_args = retry_kw\<rparr>),
         (2, \<lparr>sa_user_id = PyInt 7, sa_time = 2000, sa_done = False,
              sa_type = ''extra_plan_reset'', sa_args = [(''user_id'', PyInt 7)]\<rparr>)],
      next_action_id := 3\<rparr>"
  by (simp add: reset_after_cancel_def reset_scheduled_eval cancel_extra_punishments_def
      find_scheduled_actions_def cancel_each_def raw_cancel_action_def get_scheduled_action_def
      set_done_def task_cancel_def new_task_def billing_module_handlers initial_def Let_def)

lemma reset_fired_eval:
  "reset_fired = (billing_module\<lparr>users := [(7, user_7\<lparr>extra_data := [(''advance_service_state'', PyInt 1)]\<rparr>)]\<rparr>)
     \<lparr>scheduled_tasks := [(2, 1)],
      loop_tasks := [(new_task 1 ''extra_plan_payment_retry'' 1000 retry_kw)\<lparr>task_status := Cancelled\<rparr>,
                     (new_task 2 ''extra_plan_reset'' 2000 [(''user_id'', PyInt 7)])\<lparr>task_status := Finished\<rparr>],
      scheduled_actions :=
        [(1, \<lparr>sa_user_id = PyInt 7, sa_time = 1000, sa_done = True,
              sa_type = ''extra_plan_payment_retry'', sa_args = retry_kw\<rparr>),
         (2, \<lparr>sa_user_id = PyInt 7, sa_time = 2000, sa_done = True,
              sa_type = ''extra_plan_reset'', sa_args = [(''user_id'', PyInt 7)]\<rparr>)],
      next_action_id := 3,
      log_records := [(INFO, ExtraPlanExpired (PyInt 7))]\<rparr>"
  by (simp add: reset_fired_def reset_after_cancel_eval fire_def scheduled_action_task_def
      perform_action_def deserialize_def dataclass_init_def field_names_def Action_run_def
      ExtraPlanResetAction_run_def ExtraPlanResetAction_def RecurrentPaymentAction_def
      find_user_def set_extra_data_def logging_def get_scheduled_action_def
      ADVANCED_SERVICE_STATE_def UNUSED_def user_7_def
      set_done_def new_task_def billing_module_handlers initial_def Let_def)

text \<open>
  C2 as stated fails. With a payment retry (id 1) and an
  \<^verbatim>\<open>ExtraPlanResetAction\<close> (id 2) pending for user 7, \<^verbatim>\<open>cancel_extra_punishments(7)\<close> cancels
  the retry only: row 2 is still pending and its task still waits. When that task fires,
  the marker \<^verbatim>\<open>advance_service_state\<close> of user 7 goes from \<^verbatim>\<open>NOTIFIED\<close> (3) to \<^verbatim>\<open>UNUSED\<close>
  (1), and row 2 is then done because the action ran, not because it was cancelled.
\<close>

theorem reset_action_runs_after_cancel_extra_punishments:
  "map_option sa_done (get_scheduled_action 1 reset_after_cancel) = Some True
   \<and> map_option sa_done (get_scheduled_action 2 reset_after_cancel) = Some False
   \<and> map_of (scheduled_tasks reset_after_cancel) 2 = Some 1
   \<and> task_status (loop_tasks reset_after_cancel ! 1) = Waiting
   \<and> map_option (\<lambda>user. map_of (extra_data user) ADVANCED_SERVICE_STATE)
        (map_of (users reset_after_cancel) 7) = Some (Some NOTIFIED)
   \<and> map_option (\<lambda>user. map_of (extra_data user) ADVANCED_SERVICE_STATE)
        (map_of (users reset_fired) 7) = Some (Some UNUSED)
   \<and> map_option sa_done (get_scheduled_action 2 reset_fired) = Some True"
  by (simp add: reset_after_cancel_eval reset_fired_eval get_scheduled_action_def new_task_def
      user_7_def ADVANCED_SERVICE_STATE_def NOTIFIED_def UNUSED_def)

text \<open>
  C2, amended. Let the ids of the table be distinct, let \<open>i\<close> be a pending row of type
  \<^verbatim>\<open>extra_plan_reset\<close> whose task \<open>t\<close> (stored under \<open>i\<close> only) waits with the arguments
  \<^verbatim>\<open>user_id = u\<close>, let the class be registered and user \<open>u\<close> exist. Then
  \<^verbatim>\<open>cancel_extra_punishments(u)\<close> leaves the row pending, the task stored and waiting and
  the user as it is; and when the task fires afterwards, the action runs: it sets
  \<^verbatim>\<open>advance_service_state\<close> of the user to \<^verbatim>\<open>UNUSED\<close>, and the row is marked done by this
  completion.
\<close>

theorem cancel_extra_punishments_spares_reset:
  assumes pk: "distinct (map fst (scheduled_actions s))"
    and row: "get_scheduled_action i s = Some a"
    and ty: "sa_type a = ''extra_plan_reset''"
    and pending: "\<not> sa_done a"
    and idx: "map_of (scheduled_tasks s) i = Some t"
    and own: "\<forall>j. map_of (scheduled_tasks s) j = Some t \<longrightarrow> j = i"
    and tl: "t < length (loop_tasks s)"
    and task: "loop_tasks s ! t = new_task i ''extra_plan_reset'' (sa_time a) [(''user_id'', PyInt u)]"
    and reg: "map_of (handlers s) ''extra_plan_reset'' = Some (DoHandle ExtraPlanResetAction)"
    and user: "map_of (users s) u = Some user" and u0: "u \<noteq> 0"
  shows "get_scheduled_action i (snd (cancel_extra_punishments u s)) = Some a
     \<and> map_of (scheduled_tasks (snd (cancel_extra_punishments u s))) i = Some t
     \<and> task_status (loop_tasks (snd (cancel_extra_punishments u s)) ! t) = Waiting
     \<and> map_of (users (snd (cancel_extra_punishments u s))) u = Some user
     \<and> map_of (users (fire (billing_call ext) t (snd (cancel_extra_punishments u s)))) u =
         Some (user\<lparr>extra_data := AList.update ADVANCED_SERVICE_STATE UNUSED (extra_data user)\<rparr>)
     \<and> get_scheduled_action i (fire (billing_call ext) t (snd (cancel_extra_punishments u s))) =
         Some (a\<lparr>sa_done := True\<rparr>)"
proof -
  define task where "task = new_task i ''extra_plan_reset'' (sa_time a) [(''user_id'', PyInt u)]"
  define s2 where "s2 = snd (cancel_extra_punishments u s)"
  have ar: "armed i a t task s"
    unfolding armed_def task_def using row idx own tl task by blast
  have "sa_type a \<noteq> ''extra_plan_payment_retry''" using ty by simp
  from cancel_extra_punishments_armed[OF pk ar this]
  have ar2: "armed i a t task s2" by (simp add: s2_def)
  have fr: "handlers s2 = handlers s" "users s2 = users s"
    by (simp_all add: s2_def cancel_extra_punishments_def cancel_each_frame)
  have g2: "get_scheduled_action i s2 = Some a" and i2: "map_of (scheduled_tasks s2) i = Some t"
    and l2: "t < length (loop_tasks s2)" and t2: "loop_tasks s2 ! t = task"
    using ar2 by (simp_all add: armed_def)
  have u2: "map_of (users s2) u = Some user" using user fr by simp
  have r2: "map_of (handlers s2) ''extra_plan_reset'' = Some (DoHandle ExtraPlanResetAction)"
    using reg fr by simp
  define s3 where "s3 = set_extra_data u user ADVANCED_SERVICE_STATE UNUSED
                (logging INFO (ExtraPlanExpired (PyInt u)) s2)"
  have call: "billing_call ext (DoHandle ExtraPlanResetAction) (sa_time a) [(''user_id'', PyInt u)] s2
      = (Inr (), s3)"
    using reset_call[OF u2 u0] by (simp add: s3_def)
  have w: "scheduled_action_task (billing_call ext) i ''extra_plan_reset'' (sa_time a)
      [(''user_id'', PyInt u)] s2 = (Inr (), set_done i s3)"
    using task_clean [of s2 "''extra_plan_reset''" "DoHandle ExtraPlanResetAction"
        "billing_call ext" "sa_time a" "[(''user_id'', PyInt u)]" "()" s3 i] r2 call
    by simp
  have f: "fire (billing_call ext) t s2 =
      (set_done i s3)\<lparr>loop_tasks := (loop_tasks (set_done i s3))
         [t := (loop_tasks (set_done i s3) ! t)\<lparr>task_status := Finished\<rparr>]\<rparr>"
    using l2 t2 w by (simp add: fire_def task_def new_task_def Let_def)
  have g3: "get_scheduled_action i s3 = Some a"
    using g2 by (simp add: s3_def set_extra_data_def logging_def get_scheduled_action_def)
  have users3: "map_of (users (fire (billing_call ext) t s2)) u =
      Some (user\<lparr>extra_data := AList.update ADVANCED_SERVICE_STATE UNUSED (extra_data user)\<rparr>)"
    by (simp add: f set_done_def s3_def set_extra_data_def logging_def AList.update_conv')
  have done3: "get_scheduled_action i (fire (billing_call ext) t s2) = Some (a\<lparr>sa_done := True\<rparr>)"
    using g3 by (simp add: f get_set_done)
  show ?thesis
    using g2 i2 t2 u2 users3 done3 unfolding s2_def by (simp add: task_def new_task_def)
qed

theorem cancel_extra_punishments_spares_reset_witness:
  "distinct (map fst (scheduled_actions reset_scheduled))
   \<and> map_option sa_type (get_scheduled_action 2 reset_scheduled) = Some ''extra_plan_reset''
   \<and> map_option sa_done (get_scheduled_action 2 reset_scheduled) = Some False
   \<and> map_of (scheduled_tasks reset_scheduled) 2 = Some 1
   \<and> map_of (users reset_scheduled) 7 = Some user_7
   \<and> map_option sa_done (get_scheduled_action 2 reset_after_cancel) = Some False
   \<and> map_of (scheduled_tasks reset_after_cancel) 2 = Some 1
   \<and> task_status (loop_tasks reset_after_cancel ! 1) = Waiting
   \<and> map_of (users reset_fired) 7 =
        Some (user_7\<lparr>extra_data := AList.update ADVANCED_SERVICE_STATE UNUSED (extra_data user_7)\<rparr>)
   \<and> map_option sa_done (get_scheduled_action 2 reset_fired) = Some True"
proof -
  define a where "a = \<lparr>sa_user_id = PyInt 7, sa_time = 2000, sa_done = False,
      sa_type = ''extra_plan_reset'', sa_args = [(''user_id'', PyInt 7)]\<rparr>"
  have pk: "distinct (map fst (scheduled_actions reset_scheduled))"
    by (simp add: reset_scheduled_eval)
  have row: "get_scheduled_action 2 reset_scheduled = Some a"
    by (simp add: reset_scheduled_eval get_scheduled_action_def a_def)
  have ty: "sa_type a = ''extra_plan_reset''" and pending: "\<not> sa_done a"
    by (simp_all add: a_def)
  have idx: "map_of (scheduled_tasks reset_scheduled) 2 = Some 1"
    by (simp add: reset_scheduled_eval)
  have own: "\<forall>j. map_of (scheduled_tasks reset_scheduled) j = Some 1 \<longrightarrow> j = 2"
    by (simp add: reset_scheduled_eval)
  have tl: "1 < length (loop_tasks reset_scheduled)"
    by (simp add: reset_scheduled_eval)
  have task: "loop_tasks reset_scheduled ! 1 =
      new_task 2 ''extra_plan_reset'' (sa_time a) [(''user_id'', PyInt 7)]"
    by (simp add: reset_scheduled_eval a_def)
  have reg: "map_of (handlers reset_scheduled) ''extra_plan_reset'' =
      Some (DoHandle ExtraPlanResetAction)"
    by (simp add: reset_scheduled_eval billing_module_handlers)
  have user: "map_of (users reset_scheduled) 7 = Some user_7"
    by (simp add: reset_scheduled_eval)
  have u0: "(7::int) \<noteq> 0" by simp
  from cancel_extra_punishments_spares_reset
    [OF pk row ty pending idx own tl task reg user u0, of declined]
  show ?thesis
    using pk row idx user by (simp add: reset_after_cancel_def reset_fired_def a_def)
qed

section \<open>The retry budget of recurrent payments (C1)\<close>

lemma map_entry_same_view:
  "(\<And>a. f (g a) = f a) \<Longrightarrow>
   map (\<lambda>(i, a). (i, f a)) (AList.map_entry k g xs) = map (\<lambda>(i, a). (i, f a)) xs"
  by (induction xs) auto

lemma rows_scheduled_set_done: "rows_scheduled (set_done i s) = rows_scheduled s"
  using map_entry_same_view
    [of "\<lambda>a. (sa_type a, sa_time a, sa_args a)" "\<lambda>a. a\<lparr>sa_done := True\<rparr>" i "scheduled_actions s"]
  by (simp add: rows_scheduled_def set_done_def)

lemma rows_scheduled_logging: "rows_scheduled (logging l m s) = rows_scheduled s"
  by (simp add: rows_scheduled_def logging_def)

lemma task_core:
  assumes "map_of (handlers s) ty = Some h"
  shows "handlers (snd (scheduled_action_task call i ty dt kw s)) = handlers (snd (call h dt kw s))
   \<and> users (snd (scheduled_action_task call i ty dt kw s)) = users (snd (call h dt kw s))
   \<and> scheduled_tasks (snd (scheduled_action_task call i ty dt kw s)) =
       scheduled_tasks (snd (call h dt kw s))
   \<and> loop_tasks (snd (scheduled_action_task call i ty dt kw s)) = loop_tasks (snd (call h dt kw s))
   \<and> next_action_id (snd (scheduled_action_task call i ty dt kw s)) =
       next_action_id (snd (call h dt kw s))
   \<and> rows_scheduled (snd (scheduled_action_task call i ty dt kw s)) =
       rows_scheduled (snd (call h dt kw s))"
proof -
  obtain r s1 where C: "call h dt kw s = (r, s1)" by (cases "call h dt kw s")
  show ?thesis
  proof (cases r)
    case (Inl e)
    then have "scheduled_action_task call i ty dt kw s =
        (Inr (), if e = CancelledError then s1 else logging ERROR (TaskException e) s1)"
      using task_raise [of s ty h call dt kw e s1 i] assms C by simp
    then show ?thesis
      by (simp add: C rows_scheduled_logging) (simp add: logging_def)
  next
    case (Inr u)
    then have "scheduled_action_task call i ty dt kw s = (Inr (), set_done i s1)"
      using task_clean [of s ty h call dt kw u s1 i] assms C by simp
    then show ?thesis
      by (simp add: C rows_scheduled_set_done) (simp add: set_done_def)
  qed
qed

lemma notify_core:
  "handlers (snd (notify_payment ext tg s)) = handlers s
   \<and> users (snd (notify_payment ext tg s)) = users s
   \<and> scheduled_tasks (snd (notify_payment ext tg s)) = scheduled_tasks s
   \<and> loop_tasks (snd (notify_payment ext tg s)) = loop_tasks s
   \<and> next_action_id (snd (notify_payment ext tg s)) = next_action_id s
   \<and> rows_scheduled (snd (notify_payment ext tg s)) = rows_scheduled s"
  by (simp add: notify_payment_def logging_def rows_scheduled_def split: option.split)

lemma deserialize_recurrent:
  "deserialize RecurrentPaymentAction [(''user_id'', v), (''retries_left'', w)] =
     Inr \<lparr>cls = RecurrentPaymentAction, attrs = [(''user_id'', v), (''retries_left'', w)]\<rparr>"
  by (simp add: deserialize_def dataclass_init_def field_names_def RecurrentPaymentAction_def)

lemma schedule_recurrent:
  "schedule (set_retries_left w
       \<lparr>cls = RecurrentPaymentAction, attrs = [(''user_id'', v), (''retries_left'', w0)]\<rparr>) time s =
     (Inr (ActionHandle (next_action_id s)),
      snd (raw_schedule_action ''recurrent_payment'' time
             [(''user_id'', v), (''retries_left'', w)] s))"
  by (simp add: schedule_def serialize_def set_retries_left_def field_names_def get_name_def
      RecurrentPaymentAction_def raw_schedule_action_def create_task_def Let_def)

lemma schedule_kick:
  "schedule (new_KickInactiveAction v) time s =
     (Inr (ActionHandle (next_action_id s)),
      snd (raw_schedule_action ''pishov_nahui'' time [(''user_id'', v)] s))"
  by (simp add: schedule_def serialize_def new_KickInactiveAction_def field_names_def get_name_def
      KickInactiveAction_def raw_schedule_action_def create_task_def Let_def)

lemma chargeableD:
  assumes "chargeable u s"
  obtains user plan p where "u \<noteq> 0" "map_of (users s) u = Some user"
    "payment_token user \<noteq> None" "subscription user = Some plan"
    "plan_price plan = Some p" "p \<noteq> 0"
  using assms by (auto simp add: chargeable_def split: option.splits)

lemma recurrent_call_declined:
  assumes u0: "u \<noteq> 0" and user: "map_of (users s) u = Some user"
    and tok: "payment_token user \<noteq> None" and sub: "subscription user = Some plan"
    and p1: "plan_price plan = Some p" and p2: "p \<noteq> 0"
    and dec: "cp_request ext = Inl CpPaymentError"
  shows "billing_call ext (DoHandle RecurrentPaymentAction) dt
           [(''user_id'', PyInt u), (''retries_left'', PyInt n)] s =
     notify_payment ext (telegram_id user)
       (set_extra_data u user FAILED_RECURRENT_RECOVERED (PyBool False)
          (snd (if 0 < n
                then raw_schedule_action ''recurrent_payment'' (dt + CHARGE_RETRY_PERIOD)
                       [(''user_id'', PyInt u), (''retries_left'', PyInt (n - 1))] s
                else raw_schedule_action ''pishov_nahui'' (dt + AUTO_KICK_PERIOD)
                       [(''user_id'', PyInt u)] s)))"
proof -
  have fu: "find_user (PyInt u) s = Inr (Some (u, user))"
    using u0 user by (simp add: find_user_def)
  have ch: "charge ext user plan = Inl CpPaymentError"
    using tok dec by (simp add: charge_def)
  have run: "RecurrentPaymentAction_run ext
      \<lparr>cls = RecurrentPaymentAction, attrs = [(''user_id'', PyInt u), (''retries_left'', PyInt n)]\<rparr>
      dt s =
     notify_payment ext (telegram_id user)
       (set_extra_data u user FAILED_RECURRENT_RECOVERED (PyBool False)
          (snd (if 0 < n
                then raw_schedule_action ''recurrent_payment'' (dt + CHARGE_RETRY_PERIOD)
                       [(''user_id'', PyInt u), (''retries_left'', PyInt (n - 1))] s
                else raw_schedule_action ''pishov_nahui'' (dt + AUTO_KICK_PERIOD)
                       [(''user_id'', PyInt u)] s)))"
    using p1 p2
    by (simp add: RecurrentPaymentAction_run_def fu sub ch schedule_recurrent schedule_kick)
  show ?thesis
    by (simp add: deserialize_recurrent Action_run_def run)
qed

lemma raw_schedule_action_core:
  "rows_scheduled (snd (raw_schedule_action ty time kw s)) =
     rows_scheduled s @ [(next_action_id s, ty, time, kw)]
   \<and> next_action_id (snd (raw_schedule_action ty time kw s)) = next_action_id s + 1
   \<and> handlers (snd (raw_schedule_action ty time kw s)) = handlers s
   \<and> users (snd (raw_schedule_action ty time kw s)) = users s
   \<and> loop_tasks (snd (raw_schedule_action ty time kw s)) =
       loop_tasks s @ [new_task (next_action_id s) ty time kw]"
  by (simp add: raw_schedule_action_def create_task_def rows_scheduled_def Let_def)

lemma set_extra_data_core:
  "rows_scheduled (set_extra_data u user key v s) = rows_scheduled s
   \<and> next_action_id (set_extra_data u user key v s) = next_action_id s
   \<and> handlers (set_extra_data u user key v s) = handlers s
   \<and> loop_tasks (set_extra_data u user key v s) = loop_tasks s
   \<and> map_of (users (set_extra_data u user key v s)) u =
       Some (user\<lparr>extra_data := AList.update key v (extra_data user)\<rparr>)"
  by (simp add: set_extra_data_def rows_scheduled_def AList.update_conv')

lemma fire_waiting:
  assumes "t < length (loop_tasks s)" and "loop_tasks s ! t = new_task i ty dt kw"
  shows "fire call t s =
     (snd (scheduled_action_task call i ty dt kw s))
       \<lparr>loop_tasks := (loop_tasks (snd (scheduled_action_task call i ty dt kw s)))
          [t := (loop_tasks (snd (scheduled_action_task call i ty dt kw s)) ! t)
                  \<lparr>task_status := Finished\<rparr>]\<rparr>"
  using assms by (simp add: fire_def new_task_def Let_def)

lemma fire_declined:
  assumes tl: "t < length (loop_tasks s)"
    and task: "loop_tasks s ! t = new_task i ''recurrent_payment'' dt
                 [(''user_id'', PyInt u), (''retries_left'', PyInt n)]"
    and reg: "map_of (handlers s) ''recurrent_payment'' = Some (DoHandle RecurrentPaymentAction)"
    and ch: "chargeable u s"
    and dec: "cp_request ext = Inl CpPaymentError"
  shows "rows_scheduled (fire (billing_call ext) t s) =
       rows_scheduled s @
         [if 0 < n
          then (next_action_id s, ''recurrent_payment'', dt + CHARGE_RETRY_PERIOD,
                [(''user_id'', PyInt u), (''retries_left'', PyInt (n - 1))])
          else (next_action_id s, ''pishov_nahui'', dt + AUTO_KICK_PERIOD,
                [(''user_id'', PyInt u)])]
     \<and> next_action_id (fire (billing_call ext) t s) = next_action_id s + 1
     \<and> handlers (fire (billing_call ext) t s) = handlers s
     \<and> chargeable u (fire (billing_call ext) t s)
     \<and> length (loop_tasks s) < length (loop_tasks (fire (billing_call ext) t s))
     \<and> loop_tasks (fire (billing_call ext) t s) ! length (loop_tasks s) =
         (if 0 < n
          then new_task (next_action_id s) ''recurrent_payment'' (dt + CHARGE_RETRY_PERIOD)
                [(''user_id'', PyInt u), (''retries_left'', PyInt (n - 1))]
          else new_task (next_action_id s) ''pishov_nahui'' (dt + AUTO_KICK_PERIOD)
                [(''user_id'', PyInt u)])"
proof -
  from ch obtain user plan p where u: "u \<noteq> 0" "map_of (users s) u = Some user"
    "payment_token user \<noteq> None" "subscription user = Some plan"
    "plan_price plan = Some p" "p \<noteq> 0"
    by (rule chargeableD)
  define ty' where "ty' = (if 0 < n then ''recurrent_payment'' else ''pishov_nahui'')"
  define time' where "time' = (if 0 < n then dt + CHARGE_RETRY_PERIOD else dt + AUTO_KICK_PERIOD)"
  define kw' where "kw' = (if 0 < n then [(''user_id'', PyInt u), (''retries_left'', PyInt (n - 1))]
     else [(''user_id'', PyInt u)])"
  define sS where "sS = snd (raw_schedule_action ty' time' kw' s)"
  define sR where "sR = set_extra_data u user FAILED_RECURRENT_RECOVERED (PyBool False) sS"
  define kw where "kw = [(''user_id'', PyInt u), (''retries_left'', PyInt n)]"
  define sT where "sT = snd (scheduled_action_task (billing_call ext) i ''recurrent_payment'' dt kw s)"
  have call: "billing_call ext (DoHandle RecurrentPaymentAction) dt kw s =
      notify_payment ext (telegram_id user) sR"
    using recurrent_call_declined [OF u dec, of dt n]
    by (simp add: sR_def sS_def ty'_def time'_def kw'_def kw_def)
  have coreS: "rows_scheduled sS = rows_scheduled s @ [(next_action_id s, ty', time', kw')]"
    "next_action_id sS = next_action_id s + 1" "handlers sS = handlers s" "users sS = users s"
    "loop_tasks sS = loop_tasks s @ [new_task (next_action_id s) ty' time' kw']"
    using raw_schedule_action_core [of ty' time' kw' s] by (simp_all add: sS_def)
  have coreR: "rows_scheduled sR = rows_scheduled sS" "next_action_id sR = next_action_id sS"
    "handlers sR = handlers sS" "loop_tasks sR = loop_tasks sS"
    "map_of (users sR) u = Some (user\<lparr>extra_data :=
        AList.update FAILED_RECURRENT_RECOVERED (PyBool False) (extra_data user)\<rparr>)"
    using set_extra_data_core [of u user FAILED_RECURRENT_RECOVERED "PyBool False" sS]
    by (simp_all add: sR_def)
  have coreT: "rows_scheduled sT = rows_scheduled sR" "next_action_id sT = next_action_id sR"
    "handlers sT = handlers sR" "loop_tasks sT = loop_tasks sR" "users sT = users sR"
    using task_core [OF reg, of "billing_call ext" i dt kw, unfolded call]
      notify_core [of ext "telegram_id user" sR]
    by (simp_all add: sT_def del: billing_call.simps)
  have f: "fire (billing_call ext) t s =
      sT\<lparr>loop_tasks := (loop_tasks sT)[t := (loop_tasks sT ! t)\<lparr>task_status := Finished\<rparr>]\<rparr>"
    using fire_waiting [OF tl, of i "''recurrent_payment''" dt kw "billing_call ext"] task
    by (simp add: sT_def kw_def)
  have rows: "rows_scheduled (fire (billing_call ext) t s) =
      rows_scheduled s @ [(next_action_id s, ty', time', kw')]"
    using coreT(1) coreR(1) coreS(1) by (simp add: f rows_scheduled_def)
  have nid: "next_action_id (fire (billing_call ext) t s) = next_action_id s + 1"
    using coreT(2) coreR(2) coreS(2) by (simp add: f)
  have hs: "handlers (fire (billing_call ext) t s) = handlers s"
    using coreT(3) coreR(3) coreS(3) by (simp add: f)
  have us: "map_of (users (fire (billing_call ext) t s)) u = Some (user\<lparr>extra_data :=
        AList.update FAILED_RECURRENT_RECOVERED (PyBool False) (extra_data user)\<rparr>)"
    using coreT(5) coreR(5) by (simp add: f)
  have ch': "chargeable u (fire (billing_call ext) t s)"
    using us u by (simp add: chargeable_def)
  have lt: "loop_tasks (fire (billing_call ext) t s) =
      (loop_tasks s @ [new_task (next_action_id s) ty' time' kw'])
        [t := ((loop_tasks s @ [new_task (next_action_id s) ty' time' kw']) ! t)
                \<lparr>task_status := Finished\<rparr>]"
    using coreT(4) coreR(4) coreS(5) by (simp add: f)
  have len: "length (loop_tasks s) < length (loop_tasks (fire (billing_call ext) t s))"
    by (simp add: lt)
  have new: "loop_tasks (fire (billing_call ext) t s) ! length (loop_tasks s) =
      new_task (next_action_id s) ty' time' kw'"
    using tl by (simp add: lt)
  show ?thesis
    using rows nid hs ch' len new by (simp add: ty'_def time'_def kw'_def)
qed

lemma consecutive_runs_declined:
  assumes "t < length (loop_tasks s)"
    and "loop_tasks s ! t = new_task i ''recurrent_payment'' dt
                 [(''user_id'', PyInt u), (''retries_left'', PyInt n)]"
    and "map_of (handlers s) ''recurrent_payment'' = Some (DoHandle RecurrentPaymentAction)"
    and "chargeable u s"
    and "cp_request ext = Inl CpPaymentError"
    and "0 \<le> n" and "int k \<le> n + 1"
  shows "rows_scheduled (consecutive_runs ext k t s) =
     rows_scheduled s @
       map (\<lambda>j. if int j < n
                 then (next_action_id s + int j, ''recurrent_payment'',
                       dt + (int j + 1) * CHARGE_RETRY_PERIOD,
                       [(''user_id'', PyInt u), (''retries_left'', PyInt (n - 1 - int j))])
                 else (next_action_id s + int j, ''pishov_nahui'',
                       dt + int j * CHARGE_RETRY_PERIOD + AUTO_KICK_PERIOD,
                       [(''user_id'', PyInt u)])) [0..<k]"
  using assms
proof (induction k arbitrary: s t i dt n)
  case 0
  then show ?case by simp
next
  case (Suc k)
  define s' where "s' = fire (billing_call ext) t s"
  note step = fire_declined [OF Suc.prems(1-5), folded s'_def]
  have run: "consecutive_runs ext (Suc k) t s = consecutive_runs ext k (length (loop_tasks s)) s'"
    by (simp add: s'_def)
  show ?case
  proof (cases "0 < n")
    case True
    have rows': "rows_scheduled s' = rows_scheduled s @
        [(next_action_id s, ''recurrent_payment'', dt + CHARGE_RETRY_PERIOD,
          [(''user_id'', PyInt u), (''retries_left'', PyInt (n - 1))])]"
      and nid': "next_action_id s' = next_action_id s + 1"
      and h': "map_of (handlers s') ''recurrent_payment'' = Some (DoHandle RecurrentPaymentAction)"
      and ch': "chargeable u s'"
      and len': "length (loop_tasks s) < length (loop_tasks s')"
      and task': "loop_tasks s' ! length (loop_tasks s) =
          new_task (next_action_id s) ''recurrent_payment'' (dt + CHARGE_RETRY_PERIOD)
                [(''user_id'', PyInt u), (''retries_left'', PyInt (n - 1))]"
      using step True Suc.prems(3) by simp_all
    have n1: "0 \<le> n - 1" "int k \<le> n - 1 + 1" using True Suc.prems(7) by simp_all
    have IH: "rows_scheduled (consecutive_runs ext k (length (loop_tasks s)) s') =
       rows_scheduled s' @
       map (\<lambda>j. if int j < n - 1
                 then (next_action_id s' + int j, ''recurrent_payment'',
                       dt + CHARGE_RETRY_PERIOD + (int j + 1) * CHARGE_RETRY_PERIOD,
                       [(''user_id'', PyInt u), (''retries_left'', PyInt (n - 1 - 1 - int j))])
                 else (next_action_id s' + int j, ''pishov_nahui'',
                       dt + CHARGE_RETRY_PERIOD + int j * CHARGE_RETRY_PERIOD + AUTO_KICK_PERIOD,
                       [(''user_id'', PyInt u)])) [0..<k]"
      by (rule Suc.IH [OF len' task' h' ch' Suc.prems(5) n1])
    have shift: "map (\<lambda>j. if int j < n
                 then (next_action_id s + int j, ''recurrent_payment'',
                       dt + (int j + 1) * CHARGE_RETRY_PERIOD,
                       [(''user_id'', PyInt u), (''retries_left'', PyInt (n - 1 - int j))])
                 else (next_action_id s + int j, ''pishov_nahui'',
                       dt + int j * CHARGE_RETRY_PERIOD + AUTO_KICK_PERIOD,
                       [(''user_id'', PyInt u)])) [0..<Suc k] =
        (next_action_id s, ''recurrent_payment'', dt + CHARGE_RETRY_PERIOD,
          [(''user_id'', PyInt u), (''retries_left'', PyInt (n - 1))]) #
        map (\<lambda>j. if int j < n - 1
                 then (next_action_id s' + int j, ''recurrent_payment'',
                       dt + CHARGE_RETRY_PERIOD + (int j + 1) * CHARGE_RETRY_PERIOD,
                       [(''user_id'', PyInt u), (''retries_left'', PyInt (n - 1 - 1 - int j))])
                 else (next_action_id s' + int j, ''pishov_nahui'',
                       dt + CHARGE_RETRY_PERIOD + int j * CHARGE_RETRY_PERIOD + AUTO_KICK_PERIOD,
                       [(''user_id'', PyInt u)])) [0..<k]"
      unfolding map_upt_Suc using True
      by (auto simp add: nid' algebra_simps)
    show ?thesis
      unfolding run IH rows' shift by simp
  next
    case False
    then have n0: "n = 0" using Suc.prems(6) by simp
    then have k0: "k = 0" using Suc.prems(7) by simp
    have rows': "rows_scheduled s' = rows_scheduled s @
        [(next_action_id s, ''pishov_nahui'', dt + AUTO_KICK_PERIOD, [(''user_id'', PyInt u)])]"
      using step False by simp
    show ?thesis
      unfolding run by (simp add: k0 n0 rows')
  qed
qed

text \<open>
  C1. Let the task of a \<^verbatim>\<open>RecurrentPaymentAction\<close> with \<^verbatim>\<open>user_id = u\<close> and
  \<^verbatim>\<open>retries_left = N\<close>, due at \<open>dt\<close>, wait in the loop, the class be registered, the charge
  call be reached for user \<open>u\<close>, and the gateway decline every charge. The task fires, then
  the task that this run rescheduled, and so on. After \<open>N\<close> runs the table has exactly \<open>N\<close>
  new rows, all of type \<^verbatim>\<open>recurrent_payment\<close>: the \<open>k\<close>-th one (from 0) is scheduled one
  \<^verbatim>\<open>CHARGE_RETRY_PERIOD\<close> after the time of the run that made it, and has
  \<^verbatim>\<open>retries_left = N - 1 - k\<close>. The next run, with \<^verbatim>\<open>retries_left = 0\<close>, adds one row
  only, of type \<^verbatim>\<open>pishov_nahui\<close> (\<^verbatim>\<open>KickInactiveAction\<close>), at the time of that run plus
  \<^verbatim>\<open>AUTO_KICK_PERIOD\<close>.
\<close>

theorem recurrent_payment_retry_budget:
  assumes "t < length (loop_tasks s)"
    and "loop_tasks s ! t = new_task i ''recurrent_payment'' dt
                 [(''user_id'', PyInt u), (''retries_left'', PyInt (int N))]"
    and "map_of (handlers s) ''recurrent_payment'' = Some (DoHandle RecurrentPaymentAction)"
    and "chargeable u s"
    and "cp_request ext = Inl CpPaymentError"
  shows "rows_scheduled (consecutive_runs ext N t s) =
       rows_scheduled s @
         map (\<lambda>k. (next_action_id s + int k, ''recurrent_payment'',
                    dt + (int k + 1) * CHARGE_RETRY_PERIOD,
                    [(''user_id'', PyInt u), (''retries_left'', PyInt (int N - 1 - int k))]))
           [0..<N]
     \<and> rows_scheduled (consecutive_runs ext (Suc N) t s) =
       rows_scheduled s @
         map (\<lambda>k. (next_action_id s + int k, ''recurrent_payment'',
                    dt + (int k + 1) * CHARGE_RETRY_PERIOD,
                    [(''user_id'', PyInt u), (''retries_left'', PyInt (int N - 1 - int k))]))
           [0..<N] @
         [(next_action_id s + int N, ''pishov_nahui'',
           dt + int N * CHARGE_RETRY_PERIOD + AUTO_KICK_PERIOD, [(''user_id'', PyInt u)])]"
proof -
  have a: "(0::int) \<le> int N" "int N \<le> int N + 1" "int (Suc N) \<le> int N + 1" by simp_all
  have r1: "rows_scheduled (consecutive_runs ext N t s) = rows_scheduled s @
       map (\<lambda>j. if int j < int N
                 then (next_action_id s + int j, ''recurrent_payment'',
                       dt + (int j + 1) * CHARGE_RETRY_PERIOD,
                       [(''user_id'', PyInt u), (''retries_left'', PyInt (int N - 1 - int j))])
                 else (next_action_id s + int j, ''pishov_nahui'',
                       dt + int j * CHARGE_RETRY_PERIOD + AUTO_KICK_PERIOD,
                       [(''user_id'', PyInt u)])) [0..<N]"
    by (rule consecutive_runs_declined [OF assms a(1) a(2)])
  have r2: "rows_scheduled (consecutive_runs ext (Suc N) t s) = rows_scheduled s @
       map (\<lambda>j. if int j < int N
                 then (next_action_id s + int j, ''recurrent_payment'',
                       dt + (int j + 1) * CHARGE_RETRY_PERIOD,
                       [(''user_id'', PyInt u), (''retries_left'', PyInt (int N - 1 - int j))])
                 else (next_action_id s + int j, ''pishov_nahui'',
                       dt + int j * CHARGE_RETRY_PERIOD + AUTO_KICK_PERIOD,
                       [(''user_id'', PyInt u)])) [0..<Suc N]"
    by (rule consecutive_runs_declined [OF assms a(1) a(3)])
  have m: "map (\<lambda>j. if int j < int N
                 then (next_action_id s + int j, ''recurrent_payment'',
                       dt + (int j + 1) * CHARGE_RETRY_PERIOD,
                       [(''user_id'', PyInt u), (''retries_left'', PyInt (int N - 1 - int j))])
                 else (next_action_id s + int j, ''pishov_nahui'',
                       dt + int j * CHARGE_RETRY_PERIOD + AUTO_KICK_PERIOD,
                       [(''user_id'', PyInt u)])) [0..<N] =
      map (\<lambda>k. (next_action_id s + int k, ''recurrent_payment'',
                    dt + (int k + 1) * CHARGE_RETRY_PERIOD,
                    [(''user_id'', PyInt u), (''retries_left'', PyInt (int N - 1 - int k))]))
           [0..<N]"
    by (rule map_cong) simp_all
  show ?thesis
    unfolding r1 r2 using m by simp
qed

lemma recurrent_scheduled_eval:
  "recurrent_scheduled = (billing_module\<lparr>users := [(3, user_3)]\<rparr>)
     \<lparr>scheduled_tasks := [(1, 0)],
      loop_tasks := [new_task 1 ''recurrent_payment'' 0
                       [(''user_id'', PyInt 3), (''retries_left'', PyInt 2)]],
      scheduled_actions :=
        [(1, \<lparr>sa_user_id = PyInt 3, sa_time = 0, sa_done = False,
              sa_type = ''recurrent_payment'',
              sa_args = [(''user_id'', PyInt 3), (''retries_left'', PyInt 2)]\<rparr>)],
      next_action_id := 2\<rparr>"
  by (simp add: recurrent_scheduled_def recurrent_3_2_def schedule_def serialize_def
      field_names_def RecurrentPaymentAction_def get_name_def
      raw_schedule_action_def create_task_def billing_module_handlers initial_def)

theorem recurrent_payment_retry_budget_witness:
  "loop_tasks recurrent_scheduled ! 0 =
      new_task 1 ''recurrent_payment'' 0 [(''user_id'', PyInt 3), (''retries_left'', PyInt 2)]
   \<and> chargeable 3 recurrent_scheduled
   \<and> cp_request declined = Inl CpPaymentError
   \<and> rows_scheduled (consecutive_runs declined 2 0 recurrent_scheduled) =
      [(1, ''recurrent_payment'', 0, [(''user_id'', PyInt 3), (''retries_left'', PyInt 2)]),
       (2, ''recurrent_payment'', CHARGE_RETRY_PERIOD,
          [(''user_id'', PyInt 3), (''retries_left'', PyInt 1)]),
       (3, ''recurrent_payment'', 2 * CHARGE_RETRY_PERIOD,
          [(''user_id'', PyInt 3), (''retries_left'', PyInt 0)])]
   \<and> rows_scheduled (consecutive_runs declined 3 0 recurrent_scheduled) =
      [(1, ''recurrent_payment'', 0, [(''user_id'', PyInt 3), (''retries_left'', PyInt 2)]),
       (2, ''recurrent_payment'', CHARGE_RETRY_PERIOD,
          [(''user_id'', PyInt 3), (''retries_left'', PyInt 1)]),
       (3, ''recurrent_payment'', 2 * CHARGE_RETRY_PERIOD,
          [(''user_id'', PyInt 3), (''retries_left'', PyInt 0)]),
       (4, ''pishov_nahui'', 2 * CHARGE_RETRY_PERIOD + AUTO_KICK_PERIOD,
          [(''user_id'', PyInt 3)])]"
proof -
  have tl: "0 < length (loop_tasks recurrent_scheduled)"
    by (simp add: recurrent_scheduled_eval)
  have task: "loop_tasks recurrent_scheduled ! 0 =
      new_task 1 ''recurrent_payment'' 0
        [(''user_id'', PyInt 3), (''retries_left'', PyInt (int 2))]"
    by (simp add: recurrent_scheduled_eval)
  have reg: "map_of (handlers recurrent_scheduled) ''recurrent_payment'' =
      Some (DoHandle RecurrentPaymentAction)"
    by (simp add: recurrent_scheduled_eval billing_module_handlers)
  have ch: "chargeable 3 recurrent_scheduled"
    by (simp add: chargeable_def recurrent_scheduled_eval user_3_def)
  have dec: "cp_request declined = Inl CpPaymentError"
    by (simp add: declined_def)
  have upt2: "[0..<2] = [0, Suc 0]"
    by (simp add: upt_rec numeral_2_eq_2)
  have rows0: "rows_scheduled recurrent_scheduled =
      [(1, ''recurrent_payment'', 0, [(''user_id'', PyInt 3), (''retries_left'', PyInt 2)])]"
    by (simp add: rows_scheduled_def recurrent_scheduled_eval)
  have nid: "next_action_id recurrent_scheduled = 2"
    by (simp add: recurrent_scheduled_eval)
  have s3: "Suc 2 = 3" by simp
  from recurrent_payment_retry_budget [OF tl task reg ch dec]
  show ?thesis
    using task ch dec by (simp add: upt2 rows0 nid s3)
qed


end
